theory Spec2Isabelle
  imports Complex_Main "HOL-Library.List_Lexorder" "HOL-Library.Char_ord" "HOL-Library.AList"
begin

section \<open>Python values and conversions\<close>

text \<open>
  The reporting code is Python. Its floating-point numbers are idealised as reals:
  arithmetic on them is exact, so rounding, infinities and NaN are outside the model.
  Values whose Python type is not fixed by the code are elements of \<open>pyval\<close>.
\<close>

datatype pyval = PNone | PBool bool | PInt int | PFloat real | PStr string | PObj

datatype py_error =
  TypeError | ValueError | IndexError | AttributeError | KeyError | OverflowError

text \<open>
  An integer converts to a float when, rounded to the nearest float, it stays in the
  range of floats: when its absolute value is below \<open>2 ^ 1024 - 2 ^ 970\<close>, half way
  between the largest float and \<open>2 ^ 1024\<close>.
\<close>

definition float_int_limit :: int where
  "float_int_limit = 2 ^ 1024 - 2 ^ 970"

text \<open>
  The builtin \<open>float(x)\<close>: a TypeError on None and on objects that are not numbers or
  strings, a ValueError on a string that is not a number, an OverflowError on an integer
  too large for a float. What \<open>float\<close> makes of a string is the parameter
  \<open>str_to_float\<close> (None: the string is rejected).
\<close>

fun py_float :: "(string \<Rightarrow> real option) \<Rightarrow> pyval \<Rightarrow> py_error + real" where
  "py_float str_to_float PNone = Inl TypeError"
| "py_float str_to_float (PBool b) = Inr (if b then 1 else 0)"
| "py_float str_to_float (PInt i) =
     (if \<bar>i\<bar> \<ge> float_int_limit then Inl OverflowError else Inr (of_int i))"
| "py_float str_to_float (PFloat x) = Inr x"
| "py_float str_to_float (PStr s) =
     (case str_to_float s of None \<Rightarrow> Inl ValueError | Some x \<Rightarrow> Inr x)"
| "py_float str_to_float PObj = Inl TypeError"

section \<open>Dispensed litres: \<open>calc_dispensed\<close> (accounts/views.py)\<close>

text \<open>
  \<open>except (TypeError, ValueError): return 0\<close> around the two conversions: these two
  errors become the result 0, any other error leaves the function.
\<close>

definition calc_dispensed ::
  "(string \<Rightarrow> real option) \<Rightarrow> pyval \<Rightarrow> pyval \<Rightarrow> real \<Rightarrow> py_error + real" where
  "calc_dispensed str_to_float opening closing max_meter =
     (if opening = PNone \<or> closing = PNone then Inr 0
      else
        (case py_float str_to_float opening of
           Inl e \<Rightarrow> (if e = TypeError \<or> e = ValueError then Inr 0 else Inl e)
         | Inr opening' \<Rightarrow>
            (case py_float str_to_float closing of
               Inl e \<Rightarrow> (if e = TypeError \<or> e = ValueError then Inr 0 else Inl e)
             | Inr closing' \<Rightarrow>
                (if closing' \<ge> opening' then Inr (closing' - opening')
                 else if (opening' - closing') > (0.5 * max_meter)
                   then Inr ((max_meter - opening') + closing')
                 else Inr 0))))"

text \<open>The call with the default \<open>max_meter=100000\<close>.\<close>

definition calc_dispensed_default ::
  "(string \<Rightarrow> real option) \<Rightarrow> pyval \<Rightarrow> pyval \<Rightarrow> py_error + real" where
  "calc_dispensed_default str_to_float opening closing =
     calc_dispensed str_to_float opening closing 100000"


section \<open>Rate lookup: \<open>get_rate_for_date\<close> (accounts/utils/supabase_utils.py)\<close>

text \<open>
  A row of the \<open>fuel_rates\<close> table. Dates are ISO strings (\<open>'2025-10-01'\<close>) and the
  code compares them as strings, so the order is the lexicographic order of strings.
  The column \<open>value\<close> is the field \<open>rate_value\<close>.
\<close>

record fuel_rate =
  rate_name :: string
  start_date :: string
  rate_value :: real

text \<open>
  \<open>sorted(xs, key=key, reverse=True)\<close>: Python's sort is stable, and with
  \<open>reverse=True\<close> it reverses the list, sorts it and reverses the result, so that equal
  keys keep their original order.
\<close>

definition py_sorted_reverse :: "('a \<Rightarrow> 'k::linorder) \<Rightarrow> 'a list \<Rightarrow> 'a list" where
  "py_sorted_reverse key xs = rev (sort_key key (rev xs))"

text \<open>\<open>rate_lookup\<close> groups the fetched rates by name, in the order fetched.\<close>

definition rate_lookup :: "fuel_rate list \<Rightarrow> string \<Rightarrow> fuel_rate list" where
  "rate_lookup rates name = filter (\<lambda>rate. rate_name rate = name) rates"

definition get_rate_for_date :: "fuel_rate list \<Rightarrow> string \<Rightarrow> string \<Rightarrow> real" where
  "get_rate_for_date rates name report_date_str =
     (let candidates = filter (\<lambda>r. start_date r \<le> report_date_str) (rate_lookup rates name)
      in if candidates = [] then 0.0
         else rate_value (hd (py_sorted_reverse start_date candidates)))"

text \<open>The two rates of the specification's example, under one rate name.\<close>

definition example_rates :: "fuel_rate list" where
  "example_rates =
     [\<lparr>rate_name = ''rate_r22_12'', start_date = ''2025-01-01'', rate_value = 20\<rparr>,
      \<lparr>rate_name = ''rate_r22_12'', start_date = ''2025-03-01'', rate_value = 22\<rparr>]"

section \<open>Strings and dictionaries\<close>

text \<open>
  Strings are lists of 8-bit characters; the string methods below are Python's on ASCII
  text (letters a-z and A-Z, digits 0-9, the ASCII whitespace characters).
\<close>

definition py_upper :: "string \<Rightarrow> string" where
  "py_upper s =
     map (\<lambda>c. case map_of (zip ''abcdefghijklmnopqrstuvwxyz'' ''ABCDEFGHIJKLMNOPQRSTUVWXYZ'') c of
                 None \<Rightarrow> c | Some u \<Rightarrow> u) s"

definition py_lower :: "string \<Rightarrow> string" where
  "py_lower s =
     map (\<lambda>c. case map_of (zip ''ABCDEFGHIJKLMNOPQRSTUVWXYZ'' ''abcdefghijklmnopqrstuvwxyz'') c of
                 None \<Rightarrow> c | Some l \<Rightarrow> l) s"

text \<open>\<open>sub in s\<close>: \<open>sub\<close> occurs in \<open>s\<close> as a contiguous substring.\<close>

fun py_in :: "string \<Rightarrow> string \<Rightarrow> bool" where
  "py_in sub [] = (sub = [])"
| "py_in sub (c # cs) = (take (length sub) (c # cs) = sub \<or> py_in sub cs)"

definition py_startswith :: "string \<Rightarrow> string \<Rightarrow> bool" where
  "py_startswith s pre = (take (length pre) s = pre)"

definition is_space :: "char \<Rightarrow> bool" where
  "is_space c = (c \<in> set [CHR '' '', CHR 0x09, CHR 0x0A, CHR 0x0B, CHR 0x0C, CHR 0x0D,
                           CHR 0x1C, CHR 0x1D, CHR 0x1E, CHR 0x1F])"

definition is_digit :: "char \<Rightarrow> bool" where
  "is_digit c = (c \<in> set ''0123456789'')"

definition py_strip :: "string \<Rightarrow> string" where
  "py_strip s = rev (dropWhile is_space (rev (dropWhile is_space s)))"

text \<open>\<open>x or ""\<close> and \<open>x or 0\<close> on a nullable column (None when the key is missing or null).\<close>

definition str_or_empty :: "string option \<Rightarrow> string" where
  "str_or_empty x = (case x of None \<Rightarrow> [] | Some s \<Rightarrow> s)"

definition num_or_0 :: "real option \<Rightarrow> real" where
  "num_or_0 x = (case x of None \<Rightarrow> 0 | Some v \<Rightarrow> v)"

text \<open>
  A Python dict is an association list with distinct keys in insertion order:
  \<open>AList.update\<close> replaces the value of a key in place and appends a new key at the end.
  \<open>dict_get d k v\<close> is \<open>d.get(k, v)\<close>, and the value of \<open>d[k]\<close> in a
  \<open>defaultdict\<close> whose default is \<open>v\<close>.
\<close>

definition dict_get :: "('k \<times> 'v) list \<Rightarrow> 'k \<Rightarrow> 'v \<Rightarrow> 'v" where
  "dict_get d k v = (case map_of d k of None \<Rightarrow> v | Some w \<Rightarrow> w)"

definition dict_add :: "'k \<Rightarrow> real \<Rightarrow> ('k \<times> real) list \<Rightarrow> ('k \<times> real) list" where
  "dict_add k amount d = AList.update k (dict_get d k 0 + amount) d"

section \<open>The dashboard aggregation of \<open>admin_dashboard\<close> (accounts/views.py)\<close>

text \<open>
  A row of the \<open>slip_items\<close> table as the view reads it (\<open>item.get(...)\<close>): every
  column may be missing or null. The column \<open>id\<close> is the field \<open>item_id\<close>.
\<close>

record slip_item =
  item_id :: "int option"
  slip_id :: "int option"
  item_name :: "string option"
  attendant :: "string option"
  trandate :: "string option"
  trantime :: "string option"
  qty :: "real option"
  total_price :: "real option"
  vat :: "real option"

text \<open>The local variables of the aggregation section (lines 970-984).\<close>

record dashboard_acc =
  total_revenue :: real
  total_vat :: real
  total_returns :: real
  total_transactions :: nat
  fuel_total :: real
  nonfuel_total :: real
  diesel_total :: real
  unleaded_total :: real
  daily_sales :: "(string \<times> real) list"
  hourly_sales :: "(string \<times> real) list"
  staff_sales :: "(string \<times> (real \<times> nat)) list"
  seen_slips :: "int option set"

text \<open>
  The assignments that open the section. The variables are assigned whatever they held
  before (in Python they are fresh with each call): \<open>st\<close> stands for that content.
\<close>

definition admin_dashboard_init :: "dashboard_acc \<Rightarrow> dashboard_acc" where
  "admin_dashboard_init st =
     st\<lparr>total_revenue := 0.0, total_vat := 0.0, total_returns := 0.0,
        total_transactions := 0,
        fuel_total := 0.0, nonfuel_total := 0.0, diesel_total := 0.0, unleaded_total := 0.0,
        daily_sales := [], hourly_sales := [], staff_sales := [],
        seen_slips := {}\<rparr>"

text \<open>\<open>item.get("slip_id") or item.get("id")\<close>: a slip id that is null or 0 gives way to the row id.\<close>

definition slip_key :: "slip_item \<Rightarrow> int option" where
  "slip_key item =
     (case slip_id item of
        None \<Rightarrow> item_id item
      | Some s \<Rightarrow> if s = 0 then item_id item else Some s)"

definition item_amount :: "slip_item \<Rightarrow> real" where
  "item_amount item = num_or_0 (total_price item)"

definition item_upper_name :: "slip_item \<Rightarrow> string" where
  "item_upper_name item = py_upper (str_or_empty (item_name item))"

text \<open>The test of the fuel branch: \<open>"DIESEL" in name or "UNLEADED" in name\<close>.\<close>

definition item_is_fuel :: "slip_item \<Rightarrow> bool" where
  "item_is_fuel item =
     (py_in ''DIESEL'' (item_upper_name item) \<or> py_in ''UNLEADED'' (item_upper_name item))"

text \<open>\<open>item.get("attendant") or "Unknown"\<close>.\<close>

definition item_attendant :: "slip_item \<Rightarrow> string" where
  "item_attendant item =
     (case attendant item of None \<Rightarrow> ''Unknown'' | Some a \<Rightarrow> if a = [] then ''Unknown'' else a)"

text \<open>One pass of the loop body (lines 986-1025).\<close>

definition aggregate_item :: "slip_item \<Rightarrow> dashboard_acc \<Rightarrow> dashboard_acc" where
  "aggregate_item item acc =
     (let amount = item_amount item;
          vat' = num_or_0 (vat item);
          name = item_upper_name item;
          attendant' = item_attendant item;
          slip = slip_key item;
          acc1 = acc\<lparr>total_revenue := total_revenue acc + amount,
                    total_vat := total_vat acc + vat'\<rparr>;
          acc2 = (if slip \<notin> seen_slips acc1
                  then acc1\<lparr>total_transactions := total_transactions acc1 + 1,
                            seen_slips := insert slip (seen_slips acc1)\<rparr>
                  else acc1);
          acc3 = (if py_in ''DIESEL'' name \<or> py_in ''UNLEADED'' name
                  then acc2\<lparr>fuel_total := fuel_total acc2 + amount\<rparr>
                  else acc2\<lparr>nonfuel_total := nonfuel_total acc2 + amount\<rparr>);
          acc4 = (if py_in ''DIESEL'' name
                  then acc3\<lparr>diesel_total := diesel_total acc3 + amount\<rparr> else acc3);
          acc5 = (if py_in ''UNLEADED'' name
                  then acc4\<lparr>unleaded_total := unleaded_total acc4 + amount\<rparr> else acc4);
          acc6 = (case trandate item of
                    None \<Rightarrow> acc5
                  | Some d \<Rightarrow> if d = [] then acc5
                             else acc5\<lparr>daily_sales := dict_add d amount (daily_sales acc5)\<rparr>);
          acc7 = (case trantime item of
                    None \<Rightarrow> acc6
                  | Some t \<Rightarrow> if t = [] then acc6
                             else acc6\<lparr>hourly_sales := dict_add (take 2 t) amount (hourly_sales acc6)\<rparr>);
          staff = dict_get (staff_sales acc7) attendant' (0.0, 0)
      in acc7\<lparr>staff_sales :=
                 AList.update attendant' (fst staff + amount, snd staff + 1) (staff_sales acc7)\<rparr>)"

fun aggregate_items :: "slip_item list \<Rightarrow> dashboard_acc \<Rightarrow> dashboard_acc" where
  "aggregate_items [] acc = acc"
| "aggregate_items (item # rest) acc = aggregate_items rest (aggregate_item item acc)"

text \<open>The accumulators when the loop over \<open>all_data\<close> has ended.\<close>

definition admin_dashboard_totals :: "slip_item list \<Rightarrow> dashboard_acc \<Rightarrow> dashboard_acc" where
  "admin_dashboard_totals all_data st = aggregate_items all_data (admin_dashboard_init st)"

text \<open>
  What the view takes from outside for the time-based metrics: today as a day number
  (\<open>date.toordinal\<close>), \<open>today.isoformat()\<close>, \<open>today.day\<close>, the number of days of
  today's month (\<open>calendar.monthrange\<close>), and \<open>date.fromisoformat\<close> as the day number
  of a date string (None: a ValueError).
\<close>

record calendar_env =
  today :: int
  today_isoformat :: string
  today_day :: int
  month_days :: int
  fromisoformat :: "string \<Rightarrow> int option"

text \<open>\<open>date.weekday()\<close>: Monday is 0, and day number 1 is a Monday.\<close>

definition weekday :: "int \<Rightarrow> int" where
  "weekday d = (d + 6) mod 7"

text \<open>
  \<open>sum(amt for d, amt in daily_sales.items() if lo <= date.fromisoformat(d) <= hi)\<close>,
  from the left, with the sum so far in \<open>s\<close>.
\<close>

fun sum_between ::
  "(string \<Rightarrow> int option) \<Rightarrow> int \<Rightarrow> int \<Rightarrow> (string \<times> real) list \<Rightarrow> real \<Rightarrow> py_error + real" where
  "sum_between parse lo hi [] s = Inr s"
| "sum_between parse lo hi ((d, amt) # rest) s =
     (case parse d of
        None \<Rightarrow> Inl ValueError
      | Some day \<Rightarrow> sum_between parse lo hi rest (if lo \<le> day \<and> day \<le> hi then s + amt else s))"

text \<open>The figures handed to the template (lines 1030-1112), charts left out.\<close>

record dashboard_context =
  ctx_today_sale :: real
  ctx_week_sale :: real
  ctx_month_sale :: real
  ctx_total_revenue :: real
  ctx_nett_revenue :: real
  ctx_total_vat :: real
  ctx_total_returns :: real
  ctx_total_transactions :: nat
  ctx_avg_transaction_value :: real
  ctx_fuel_total :: real
  ctx_nonfuel_total :: real
  ctx_fuel_percentage :: real
  ctx_nonfuel_percentage :: real
  ctx_diesel_total :: real
  ctx_unleaded_total :: real
  ctx_staff_performance :: "(string \<times> (real \<times> nat)) list"

definition admin_dashboard_context ::
  "calendar_env \<Rightarrow> dashboard_acc \<Rightarrow> py_error + dashboard_context" where
  "admin_dashboard_context env acc =
     (let today_sale = dict_get (daily_sales acc) (today_isoformat env) 0;
          week_start = today env - weekday (today env);
          week_end = week_start + 6
      in case sum_between (fromisoformat env) week_start week_end (daily_sales acc) 0 of
           Inl e \<Rightarrow> Inl e
         | Inr week_sale \<Rightarrow>
            (let month_start = today env - (today_day env - 1);
                 month_end = today env - (today_day env - month_days env)
             in case sum_between (fromisoformat env) month_start month_end (daily_sales acc) 0 of
                  Inl e \<Rightarrow> Inl e
                | Inr month_sale \<Rightarrow>
                   (let fuel_percentage =
                          (if total_revenue acc \<noteq> 0
                           then fuel_total acc / total_revenue acc * 100 else 0);
                        nonfuel_percentage = 100 - fuel_percentage;
                        avg_transaction_value =
                          (if total_transactions acc \<noteq> 0
                           then total_revenue acc / real (total_transactions acc) else 0);
                        nett_revenue = total_revenue acc - total_returns acc
                    in Inr \<lparr>ctx_today_sale = today_sale,
                            ctx_week_sale = week_sale,
                            ctx_month_sale = month_sale,
                            ctx_total_revenue = total_revenue acc,
                            ctx_nett_revenue = nett_revenue,
                            ctx_total_vat = total_vat acc,
                            ctx_total_returns = total_returns acc,
                            ctx_total_transactions = total_transactions acc,
                            ctx_avg_transaction_value = avg_transaction_value,
                            ctx_fuel_total = fuel_total acc,
                            ctx_nonfuel_total = nonfuel_total acc,
                            ctx_fuel_percentage = fuel_percentage,
                            ctx_nonfuel_percentage = nonfuel_percentage,
                            ctx_diesel_total = diesel_total acc,
                            ctx_unleaded_total = unleaded_total acc,
                            ctx_staff_performance =
                              py_sorted_reverse (\<lambda>x. fst (snd x)) (staff_sales acc)\<rparr>)))"

text \<open>The aggregation of one request: the loop, then the figures.\<close>

definition admin_dashboard ::
  "calendar_env \<Rightarrow> slip_item list \<Rightarrow> dashboard_acc \<Rightarrow> py_error + dashboard_context" where
  "admin_dashboard env all_data st = admin_dashboard_context env (admin_dashboard_totals all_data st)"

section \<open>Numbers in free text\<close>

definition digit_value :: "char \<Rightarrow> nat" where
  "digit_value c = length (takeWhile (\<lambda>d. d \<noteq> c) ''0123456789'')"

definition digits_value :: "string \<Rightarrow> nat" where
  "digits_value ds = foldl (\<lambda>n c. 10 * n + digit_value c) 0 ds"

text \<open>
  \<open>float(s)\<close> for a string \<open>s\<close> made of digits and dots, which is what the groups of
  the patterns below hold: the decimal value when \<open>s\<close> has a digit and at most one
  dot (\<open>15\<close>, \<open>15.\<close>, \<open>.5\<close>, \<open>15.00\<close>); otherwise (\<open>.\<close>, \<open>1.2.3\<close>) a ValueError,
  here None.
\<close>

definition float_of_decimal :: "string \<Rightarrow> real option" where
  "float_of_decimal s =
     (let ip = takeWhile is_digit s; r = dropWhile is_digit s
      in case r of
           [] \<Rightarrow> if ip = [] then None else Some (real (digits_value ip))
         | c # fp \<Rightarrow>
             if c = CHR ''.'' \<and> list_all is_digit fp \<and> (ip \<noteq> [] \<or> fp \<noteq> [])
             then Some (real (digits_value ip) + real (digits_value fp) / 10 ^ length fp)
             else None)"

text \<open>
  \<open>re.findall(r"\d+\.?\d*", s)\<close>: the non-overlapping matches from the left, each a
  run of digits, then a dot if one follows, then the digits after it.
\<close>

function findall_numbers :: "string \<Rightarrow> string list" where
  "findall_numbers [] = []"
| "findall_numbers (c # cs) =
     (if is_digit c then
        (let ip = takeWhile is_digit (c # cs); r = dropWhile is_digit (c # cs)
         in case r of
              [] \<Rightarrow> [ip]
            | d # r' \<Rightarrow>
                if d = CHR ''.''
                then (ip @ CHR ''.'' # takeWhile is_digit r') # findall_numbers (dropWhile is_digit r')
                else ip # findall_numbers r)
      else findall_numbers cs)"
  by pat_completeness auto
termination
proof (relation "measure length")
  show "wf (measure length)" by simp
next
  fix c cs x xa d r'
  assume "is_digit c" and x: "x = takeWhile is_digit (c # cs)"
    and xa: "xa = dropWhile is_digit (c # cs)" and r: "xa = d # r'"
  have "length (dropWhile is_digit r') \<le> length r'" by (rule length_dropWhile_le)
  also have "length r' < length xa" using r by simp
  also have "length xa \<le> length (c # cs)" unfolding xa by (rule length_dropWhile_le)
  finally show "(dropWhile is_digit r', c # cs) \<in> measure length" by simp
next
  fix c cs x xa d r'
  assume c: "is_digit c" and xa: "xa = dropWhile is_digit (c # cs)"
  have "xa = dropWhile is_digit cs" using c xa by simp
  then have "length xa \<le> length cs" by (simp add: length_dropWhile_le)
  then show "(xa, c # cs) \<in> measure length" by simp
next
  fix c cs
  show "(cs, c # cs) \<in> measure length" by simp
qed

text \<open>\<open>re.search(r"\d+\.?\d*", s)\<close>: the leftmost match, None when there is none.\<close>

definition search_number :: "string \<Rightarrow> string option" where
  "search_number s = (case findall_numbers s of [] \<Rightarrow> None | m # ms \<Rightarrow> Some m)"

text \<open>
  \<open>round(x, 2)\<close>, idealised: the nearest multiple of 0.01, a tie going to the even one.
\<close>

definition py_round2 :: "real \<Rightarrow> real" where
  "py_round2 x =
     (let y = x * 100; f = \<lfloor>y\<rfloor>; d = y - of_int f
      in of_int (if d < 1 / 2 then f else if d > 1 / 2 then f + 1
                 else if even f then f else f + 1) / 100)"

section \<open>The cached dashboard: \<open>refresh_dashboard_cache\<close> (accounts/tasks.py)\<close>

text \<open>
  The rows fetched. \<open>fetch_eod_data\<close> selects its columns by name, so every key of an
  EOD row is present and a value may be null (None); the other tables are read with
  \<open>row.get\<close>, where None stands for a missing key as well. Only the columns the
  code reads are kept; of an audit row (table \<open>posaud\<close>) this function reads the
  details, and the returns listing below reads the slip reference \<open>opref\<close> and the
  date too.
\<close>

record eod_row =
  s_date :: "string option"
  total :: "real option"
  gradeid :: "string option"
  tagid :: "string option"

record pos_row =
  pos_trandate :: "string option"
  pos_details :: "string option"

record posaud_row =
  aud_opref :: "string option"
  aud_trandate :: "string option"
  aud_details :: "string option"

text \<open>
  What the function takes from outside: today as a day number, the day of the month of
  a day number (\<open>date.day\<close>), and \<open>datetime.strptime(s, "%Y-%m-%d").date()\<close> as the
  day number of a date string (None: a ValueError).
\<close>

record refresh_env =
  refresh_today :: int
  day_of :: "int \<Rightarrow> int"
  strptime :: "string \<Rightarrow> int option"

definition week_start :: "refresh_env \<Rightarrow> int" where
  "week_start env = refresh_today env - weekday (refresh_today env)"

definition week_end :: "refresh_env \<Rightarrow> int" where
  "week_end env = week_start env + 6"

definition month_start :: "refresh_env \<Rightarrow> int" where
  "month_start env = refresh_today env - (day_of env (refresh_today env) - 1)"

text \<open>\<open>next_month = month_start.replace(day=28) + timedelta(days=4)\<close>.\<close>

definition next_month :: "refresh_env \<Rightarrow> int" where
  "next_month env = (month_start env + 27) + 4"

definition month_end :: "refresh_env \<Rightarrow> int" where
  "month_end env = next_month env - day_of env (next_month env)"

text \<open>The dict \<open>totals\<close>, with \<open>staff_perf\<close> and \<open>daily_trends\<close>.\<close>

record refresh_totals =
  daily :: real
  weekly :: real
  monthly :: real
  fuel :: real
  diesel :: real
  unleaded :: real
  nonfuel :: real
  revenue :: real
  returns :: real
  transactions :: nat
  staff_perf :: "(string \<times> (real \<times> nat)) list"
  daily_trends :: "(string \<times> real) list"

definition refresh_init :: refresh_totals where
  "refresh_init =
     \<lparr>daily = 0, weekly = 0, monthly = 0, fuel = 0, diesel = 0, unleaded = 0,
      nonfuel = 0, revenue = 0, returns = 0, transactions = 0,
      staff_perf = [], daily_trends = []\<rparr>"

definition TAGID_ATTENDANT_MAP :: "(string \<times> string) list" where
  "TAGID_ATTENDANT_MAP =
     [(''94CBA1'', ''Molapo''), (''56BDEF'', ''Jose''), (''C7DFA1'', ''Sibu''),
      (''6DC29F'', ''Mathebe'')]"

text \<open>The three period buckets, filled the same way for fuel and shop rows.\<close>

definition add_periods :: "refresh_env \<Rightarrow> int \<Rightarrow> real \<Rightarrow> refresh_totals \<Rightarrow> refresh_totals" where
  "add_periods env d amount t =
     (let t1 = (if d = refresh_today env then t\<lparr>daily := daily t + amount\<rparr> else t);
          t2 = (if week_start env \<le> d \<and> d \<le> week_end env
                then t1\<lparr>weekly := weekly t1 + amount\<rparr> else t1)
      in if month_start env \<le> d \<and> d \<le> month_end env
         then t2\<lparr>monthly := monthly t2 + amount\<rparr> else t2)"

text \<open>
  The body of the \<open>try\<close> for one EOD row (lines 49-75). \<open>strptime\<close> raises a TypeError
  on None and a ValueError on a malformed date, \<open>float(None)\<close> raises a TypeError; all
  three come before the first update of \<open>totals\<close>.
\<close>

definition eod_row_body ::
  "refresh_env \<Rightarrow> eod_row \<Rightarrow> refresh_totals \<Rightarrow> py_error + refresh_totals" where
  "eod_row_body env row t =
     (case s_date row of
        None \<Rightarrow> Inl TypeError
      | Some ds \<Rightarrow>
         (case strptime env ds of
            None \<Rightarrow> Inl ValueError
          | Some d \<Rightarrow>
             (case total row of
                None \<Rightarrow> Inl TypeError
              | Some amount \<Rightarrow>
                 (let gradeid' = py_strip (str_or_empty (gradeid row));
                      t1 = t\<lparr>fuel := fuel t + amount\<rparr>;
                      t2 = t1\<lparr>revenue := revenue t1 + amount\<rparr>;
                      t3 = t2\<lparr>transactions := transactions t2 + 1\<rparr>;
                      t4 = (if gradeid' = ''01'' then t3\<lparr>unleaded := unleaded t3 + amount\<rparr>
                            else if gradeid' = ''02'' then t3\<lparr>diesel := diesel t3 + amount\<rparr>
                            else t3);
                      t5 = add_periods env d amount t4;
                      tagid' = py_upper (str_or_empty (tagid row));
                      attendant' = dict_get TAGID_ATTENDANT_MAP tagid' ''Unknown'';
                      staff = dict_get (staff_perf t5) attendant' (0, 0);
                      t6 = t5\<lparr>staff_perf :=
                                AList.update attendant' (fst staff + amount, snd staff + 1)
                                  (staff_perf t5)\<rparr>
                  in Inr (t6\<lparr>daily_trends :=
                               AList.update ds (dict_get (daily_trends t6) ds 0 + amount)
                                 (daily_trends t6)\<rparr>)))))"

text \<open>\<open>except Exception: continue\<close>: a row whose body raises leaves the totals as they were.\<close>

definition eod_row_step :: "refresh_env \<Rightarrow> refresh_totals \<Rightarrow> eod_row \<Rightarrow> refresh_totals" where
  "eod_row_step env t row = (case eod_row_body env row t of Inl e \<Rightarrow> t | Inr t' \<Rightarrow> t')"

text \<open>
  The body of the \<open>try\<close> for one POS2/POS3 row (lines 83-106); None is \<open>continue\<close>
  (no date, or a voided line). The amount is the last number of the detail line.
\<close>

definition pos_row_body ::
  "refresh_env \<Rightarrow> pos_row \<Rightarrow> refresh_totals \<Rightarrow> py_error + refresh_totals option" where
  "pos_row_body env row t =
     (case pos_trandate row of
        None \<Rightarrow> Inr None
      | Some date_str \<Rightarrow>
         if date_str = [] then Inr None
         else
          (case strptime env date_str of
             None \<Rightarrow> Inl ValueError
           | Some d \<Rightarrow>
              (let details = py_strip (str_or_empty (pos_details row))
               in if py_in ''VOID'' (py_upper details) then Inr None
                  else
                   (let nums = findall_numbers details
                    in case (if nums \<noteq> [] then float_of_decimal (last nums) else Some 0) of
                         None \<Rightarrow> Inl ValueError
                       | Some amount \<Rightarrow>
                          (let t1 = t\<lparr>nonfuel := nonfuel t + amount\<rparr>;
                               t2 = t1\<lparr>revenue := revenue t1 + amount\<rparr>;
                               t3 = t2\<lparr>transactions := transactions t2 + 1\<rparr>;
                               t4 = add_periods env d amount t3
                           in Inr (Some (t4\<lparr>daily_trends :=
                                              AList.update date_str
                                                (dict_get (daily_trends t4) date_str 0 + amount)
                                                (daily_trends t4)\<rparr>)))))))"

definition pos_row_step :: "refresh_env \<Rightarrow> refresh_totals \<Rightarrow> pos_row \<Rightarrow> refresh_totals" where
  "pos_row_step env t row =
     (case pos_row_body env row t of Inl e \<Rightarrow> t | Inr None \<Rightarrow> t | Inr (Some t') \<Rightarrow> t')"

text \<open>
  The returns loop (lines 111-119): a detail line that holds \<open>return\<close> or \<open>refund\<close>
  adds its first number, when it has one.
\<close>

definition is_return_line :: "posaud_row \<Rightarrow> bool" where
  "is_return_line row =
     (py_in ''return'' (py_lower (str_or_empty (aud_details row)))
      \<or> py_in ''refund'' (py_lower (str_or_empty (aud_details row))))"

definition return_row_body :: "posaud_row \<Rightarrow> refresh_totals \<Rightarrow> py_error + refresh_totals" where
  "return_row_body row t =
     (let details = py_lower (str_or_empty (aud_details row))
      in if py_in ''return'' details \<or> py_in ''refund'' details then
           (case search_number details of
              None \<Rightarrow> Inr t
            | Some m \<Rightarrow>
               (case float_of_decimal m of
                  None \<Rightarrow> Inl ValueError
                | Some x \<Rightarrow> Inr (t\<lparr>returns := returns t + x\<rparr>)))
         else Inr t)"

definition return_row_step :: "refresh_totals \<Rightarrow> posaud_row \<Rightarrow> refresh_totals" where
  "return_row_step t row = (case return_row_body row t of Inl e \<Rightarrow> t | Inr t' \<Rightarrow> t')"

text \<open>The three loops in their order; \<open>all_pos = pos2_data + pos3_data\<close>.\<close>

definition refresh_totals_of ::
  "refresh_env \<Rightarrow> eod_row list \<Rightarrow> pos_row list \<Rightarrow> pos_row list \<Rightarrow> posaud_row list
     \<Rightarrow> refresh_totals" where
  "refresh_totals_of env eod_data pos2_data pos3_data posaud_data =
     foldl return_row_step
       (foldl (pos_row_step env)
          (foldl (eod_row_step env) refresh_init eod_data)
          (pos2_data @ pos3_data))
       posaud_data"

text \<open>
  The POS totals (lines 122-134). They are computed after the loops and outside any
  \<open>try\<close>: \<open>float(row.get("total", 0))\<close> raises a TypeError on an EOD row whose
  total is null, and the error leaves the function. The shop totals add the last number
  of each detail line that holds no VOID.
\<close>

fun pos1_total_from :: "eod_row list \<Rightarrow> real \<Rightarrow> py_error + real" where
  "pos1_total_from [] s = Inr s"
| "pos1_total_from (row # rows) s =
     (case total row of
        None \<Rightarrow> Inl TypeError
      | Some x \<Rightarrow> pos1_total_from rows (s + x))"

fun pos_total_from :: "pos_row list \<Rightarrow> real \<Rightarrow> py_error + real" where
  "pos_total_from [] s = Inr s"
| "pos_total_from (row # rows) s =
     (let details = str_or_empty (pos_details row)
      in if py_in ''VOID'' (py_upper details) then pos_total_from rows s
         else
          (let nums = findall_numbers details
           in case (if nums \<noteq> [] then float_of_decimal (last nums) else Some 0) of
                None \<Rightarrow> Inl ValueError
              | Some x \<Rightarrow> pos_total_from rows (s + x)))"

text \<open>The dict \<open>dashboard\<close> (lines 139-162); its keys \<open>fuel_total\<close> to
  \<open>total_transactions\<close> and \<open>week_start\<close> to \<open>today\<close> carry the prefix \<open>dash\<close> here.\<close>

record dashboard =
  today_sale :: real
  week_sale :: real
  month_sale :: real
  dash_fuel_total :: real
  dash_diesel_total :: real
  dash_unleaded_total :: real
  dash_nonfuel_total :: real
  dash_total_revenue :: real
  nett_revenue :: real
  dash_total_returns :: real
  dash_total_transactions :: nat
  staff_performance :: "(string \<times> (real \<times> nat)) list"
  revenue_trend_labels :: "string list"
  revenue_trend_data :: "real list"
  pos1_total_paid :: real
  pos2_total_paid :: real
  pos3_total_paid :: real
  dash_week_start :: int
  dash_week_end :: int
  dash_month_start :: int
  dash_month_end :: int
  dash_today :: int

definition dashboard_of ::
  "refresh_env \<Rightarrow> refresh_totals \<Rightarrow> real \<Rightarrow> real \<Rightarrow> real \<Rightarrow> dashboard" where
  "dashboard_of env t pos1_total pos2_total pos3_total =
     (let sorted_dates = sort (map fst (daily_trends t));
          trend_values = map (\<lambda>d. dict_get (daily_trends t) d 0) sorted_dates
      in \<lparr>today_sale = py_round2 (daily t),
          week_sale = py_round2 (weekly t),
          month_sale = py_round2 (monthly t),
          dash_fuel_total = py_round2 (fuel t),
          dash_diesel_total = py_round2 (diesel t),
          dash_unleaded_total = py_round2 (unleaded t),
          dash_nonfuel_total = py_round2 (nonfuel t),
          dash_total_revenue = py_round2 (revenue t),
          nett_revenue = py_round2 (revenue t - returns t),
          dash_total_returns = py_round2 (returns t),
          dash_total_transactions = transactions t,
          staff_performance = staff_perf t,
          revenue_trend_labels = sorted_dates,
          revenue_trend_data = trend_values,
          pos1_total_paid = py_round2 pos1_total,
          pos2_total_paid = py_round2 pos2_total,
          pos3_total_paid = py_round2 pos3_total,
          dash_week_start = week_start env,
          dash_week_end = week_end env,
          dash_month_start = month_start env,
          dash_month_end = month_end env,
          dash_today = refresh_today env\<rparr>)"

text \<open>The dashboard the function builds from the rows fetched, or the error that leaves it.\<close>

definition refresh_dashboard ::
  "refresh_env \<Rightarrow> eod_row list \<Rightarrow> pos_row list \<Rightarrow> pos_row list \<Rightarrow> posaud_row list
     \<Rightarrow> py_error + dashboard" where
  "refresh_dashboard env eod_data pos2_data pos3_data posaud_data =
     (let totals = refresh_totals_of env eod_data pos2_data pos3_data posaud_data
      in case pos1_total_from eod_data 0 of
           Inl e \<Rightarrow> Inl e
         | Inr pos1_total \<Rightarrow>
            (case pos_total_from pos2_data 0 of
               Inl e \<Rightarrow> Inl e
             | Inr pos2_total \<Rightarrow>
                (case pos_total_from pos3_data 0 of
                   Inl e \<Rightarrow> Inl e
                 | Inr pos3_total \<Rightarrow>
                     Inr (dashboard_of env totals pos1_total pos2_total pos3_total))))"

text \<open>
  The function: it builds the dashboard, stores it in the cache under
  \<open>dashboard_cache\<close> for 300 seconds and returns True; when building raises, nothing is
  stored. The cache is a dict from keys to a value and its time to live.
\<close>

definition refresh_dashboard_cache ::
  "refresh_env \<Rightarrow> eod_row list \<Rightarrow> pos_row list \<Rightarrow> pos_row list \<Rightarrow> posaud_row list
     \<Rightarrow> (string \<times> (dashboard \<times> nat)) list
     \<Rightarrow> py_error + (string \<times> (dashboard \<times> nat)) list \<times> bool" where
  "refresh_dashboard_cache env eod_data pos2_data pos3_data posaud_data cache =
     (case refresh_dashboard env eod_data pos2_data pos3_data posaud_data of
        Inl e \<Rightarrow> Inl e
      | Inr dashboard \<Rightarrow> Inr (AList.update ''dashboard_cache'' (dashboard, 300) cache, True))"

section \<open>The returns listing: \<open>return_transactions_view\<close> (accounts/views.py)\<close>

text \<open>
  The filter on the \<open>to\<close> date (lines 1126-1131): the rows that have a date on or
  before it. A \<open>to\<close> date or a row date that does not parse raises a ValueError, which
  is caught, and the rows stay as fetched.
\<close>

fun rows_until :: "(string \<Rightarrow> int option) \<Rightarrow> int \<Rightarrow> posaud_row list \<Rightarrow> py_error + posaud_row list" where
  "rows_until parse to_date_obj [] = Inr []"
| "rows_until parse to_date_obj (row # rows) =
     (case aud_trandate row of
        None \<Rightarrow> rows_until parse to_date_obj rows
      | Some ds \<Rightarrow>
          if ds = [] then rows_until parse to_date_obj rows
          else
           (case parse ds of
              None \<Rightarrow> Inl ValueError
            | Some d \<Rightarrow>
               (case rows_until parse to_date_obj rows of
                  Inl e \<Rightarrow> Inl e
                | Inr kept \<Rightarrow> Inr (if d \<le> to_date_obj then row # kept else kept))))"

definition filter_to_date ::
  "(string \<Rightarrow> int option) \<Rightarrow> string option \<Rightarrow> posaud_row list \<Rightarrow> posaud_row list" where
  "filter_to_date parse to_date data =
     (case to_date of
        None \<Rightarrow> data
      | Some td \<Rightarrow>
          if td = [] then data
          else
           (case parse td of
              None \<Rightarrow> data
            | Some to_date_obj \<Rightarrow>
               (case rows_until parse to_date_obj data of
                  Inl e \<Rightarrow> data
                | Inr kept \<Rightarrow> kept)))"

text \<open>
  \<open>grouped[row.get("opref")].append(row)\<close> for every row: the slips in the order their
  first row comes, each with its rows in order.
\<close>

definition group_step ::
  "(string option \<times> posaud_row list) list \<Rightarrow> posaud_row
     \<Rightarrow> (string option \<times> posaud_row list) list" where
  "group_step grouped row =
     AList.update (aud_opref row) (dict_get grouped (aud_opref row) [] @ [row]) grouped"

definition group_by_opref :: "posaud_row list \<Rightarrow> (string option \<times> posaud_row list) list" where
  "group_by_opref data = foldl group_step [] data"

text \<open>
  \<open>re.search(r"amount\s*:?\s*([\d]+(?:\.\d{1,2})?)", s)\<close>, group 1 of the leftmost
  match: after the word \<open>amount\<close>, spaces, a colon if there is one and spaces, a run
  of digits, then a dot with one or two digits when they follow. \<open>amount_tail\<close> reads
  what follows the word; where it fails the search goes on to the right.
\<close>

definition amount_tail :: "string \<Rightarrow> string option" where
  "amount_tail t =
     (let r = dropWhile is_space t;
          r' = (case r of [] \<Rightarrow> r | c # cs \<Rightarrow> if c = CHR '':'' then dropWhile is_space cs else r);
          ds = takeWhile is_digit r';
          rest = dropWhile is_digit r'
      in if ds = [] then None
         else Some (ds @ (case rest of
                            [] \<Rightarrow> []
                          | c # cs \<Rightarrow>
                              if c = CHR ''.'' \<and> takeWhile is_digit (take 2 cs) \<noteq> []
                              then CHR ''.'' # takeWhile is_digit (take 2 cs) else [])))"

fun search_amount :: "string \<Rightarrow> string option" where
  "search_amount [] = None"
| "search_amount (c # cs) =
     (if take 6 (c # cs) = ''amount'' then
        (case amount_tail (drop 6 (c # cs)) of
           Some g \<Rightarrow> Some g
         | None \<Rightarrow> search_amount cs)
      else search_amount cs)"

text \<open>\<open>s.replace(" ", "")\<close>.\<close>

definition remove_spaces :: "string \<Rightarrow> string" where
  "remove_spaces s = filter (\<lambda>c. c \<noteq> CHR '' '') s"

text \<open>
  The inner loop body (lines 1150-1157) for one row of a slip, with the total so far:
  on a line that holds \<open>return\<close> or \<open>refund\<close> once lower-cased and rid of its
  blanks, the number after \<open>amount\<close> is added when there is one.
\<close>

definition return_line_step :: "real \<Rightarrow> posaud_row \<Rightarrow> real" where
  "return_line_step so_far r =
     (let details = remove_spaces (py_lower (str_or_empty (aud_details r)))
      in if py_in ''return'' details \<or> py_in ''refund'' details then
           (case search_amount details of
              None \<Rightarrow> so_far
            | Some g \<Rightarrow>
               (case float_of_decimal g of
                  None \<Rightarrow> so_far
                | Some x \<Rightarrow> so_far + x))
         else so_far)"

text \<open>
  The outer loop (lines 1143-1157): a slip that has a line holding \<open>return\<close> or
  \<open>refund\<close> (lower-cased, blanks kept) has each of its rows looked at.
\<close>

definition slip_step :: "real \<Rightarrow> string option \<times> posaud_row list \<Rightarrow> real" where
  "slip_step so_far slip =
     (case slip of (opref, slip_rows) \<Rightarrow>
        if list_ex is_return_line slip_rows
        then foldl return_line_step so_far slip_rows
        else so_far)"

definition return_transactions_total :: "posaud_row list \<Rightarrow> real" where
  "return_transactions_total data = foldl slip_step 0.0 (group_by_opref data)"

text \<open>
  The figure \<open>total_return_amount\<close> the view shows, from the rows fetched and the
  \<open>to\<close> filter of the request.
\<close>

definition return_transactions_view ::
  "(string \<Rightarrow> int option) \<Rightarrow> string option \<Rightarrow> posaud_row list \<Rightarrow> real" where
  "return_transactions_view parse to_date data =
     py_round2 (return_transactions_total (filter_to_date parse to_date data))"

section \<open>The line parser: \<open>normalize_item_rows\<close> (accounts/views.py)\<close>

record raw_row =
  details :: "string option"
  code :: "string option"

text \<open>An entry of the result: name, quantity, unit price, total price, barcode.\<close>

type_synonym item_entry = "string \<times> real \<times> real \<times> real \<times> string"

definition is_num_char :: "char \<Rightarrow> bool" where
  "is_num_char c = (is_digit c \<or> c = CHR ''.'')"

text \<open>
  \<open>QTY_PRICE_PATTERN.match(s)\<close> for the pattern
  \<open>(\d+(\.\d+)?)\s*@\s*([\d.]+)\s*([\d.]*)\<close>: the groups 1, 3 and 4 of the match at
  the start of \<open>s\<close>, None when there is no match. Every part is greedy and what may
  follow it cannot start with a character the part accepts, so the first try decides.
\<close>

definition qty_price_match :: "string \<Rightarrow> (string \<times> string \<times> string) option" where
  "qty_price_match s =
     (let ip = takeWhile is_digit s; r1 = dropWhile is_digit s
      in if ip = [] then None
         else
          (let (g1, r2) =
                 (case r1 of
                    [] \<Rightarrow> (ip, r1)
                  | c # t \<Rightarrow>
                      if c = CHR ''.'' \<and> takeWhile is_digit t \<noteq> []
                      then (ip @ CHR ''.'' # takeWhile is_digit t, dropWhile is_digit t)
                      else (ip, r1))
           in case dropWhile is_space r2 of
                [] \<Rightarrow> None
              | a # r3 \<Rightarrow>
                  if a \<noteq> CHR ''@'' then None
                  else
                   (let r4 = dropWhile is_space r3;
                        g3 = takeWhile is_num_char r4;
                        r5 = dropWhile is_num_char r4
                    in if g3 = [] then None
                       else Some (g1, g3, takeWhile is_num_char (dropWhile is_space r5)))))"

text \<open>
  The three numbers of a matched line: \<open>float\<close> of group 1 and of group 3, and
  \<open>float\<close> of group 4, or quantity times unit price when group 4 is empty. Groups 3
  and 4 are any run of digits and dots, so \<open>float\<close> may raise a ValueError.
\<close>

definition qty_price_numbers :: "string \<times> string \<times> string \<Rightarrow> py_error + real \<times> real \<times> real" where
  "qty_price_numbers m =
     (case m of (g1, g3, g4) \<Rightarrow>
        (case float_of_decimal g1 of
           None \<Rightarrow> Inl ValueError
         | Some qty' \<Rightarrow>
            (case float_of_decimal g3 of
               None \<Rightarrow> Inl ValueError
             | Some unit_price \<Rightarrow>
                if g4 \<noteq> [] then
                  (case float_of_decimal g4 of
                     None \<Rightarrow> Inl ValueError
                   | Some total_price' \<Rightarrow> Inr (qty', unit_price, total_price'))
                else Inr (qty', unit_price, qty' * unit_price))))"

text \<open>
  \<open>DESCRIPTION_PRICE_PATTERN.match(s)\<close> for \<open>(.+?)\s+(\d+\.\d{2})$\<close>, on a stripped
  line: \<open>price_tail\<close> reads \<open>\s+(\d+\.\d{2})\<close> up to the end, and the description is
  the shortest non-empty start of the line, free of newlines, that such a tail follows.
\<close>

definition price_tail :: "string \<Rightarrow> string option" where
  "price_tail t =
     (let r = dropWhile is_space t; ds = takeWhile is_digit r; r2 = dropWhile is_digit r
      in if r = t \<or> ds = [] then None
         else (case r2 of
                 [c1, c2, c3] \<Rightarrow>
                   if c1 = CHR ''.'' \<and> is_digit c2 \<and> is_digit c3 then Some (ds @ r2) else None
               | _ \<Rightarrow> None))"

fun description_scan :: "string \<Rightarrow> string \<Rightarrow> (string \<times> string) option" where
  "description_scan pre rest =
     (case price_tail rest of
        Some p \<Rightarrow> Some (pre, p)
      | None \<Rightarrow>
         (case rest of
            [] \<Rightarrow> None
          | c # cs \<Rightarrow> if c = CHR 0x0A then None else description_scan (pre @ [c]) cs))"

definition description_price_match :: "string \<Rightarrow> (string \<times> string) option" where
  "description_price_match s =
     (case s of
        [] \<Rightarrow> None
      | c # cs \<Rightarrow> if c = CHR 0x0A then None else description_scan [c] cs)"

text \<open>\<open>s.split()[-1]\<close>: the last run of characters that are not spaces; an IndexError when there is none.\<close>

definition last_token :: "string \<Rightarrow> py_error + string" where
  "last_token s =
     (let tok = rev (takeWhile (\<lambda>c. \<not> is_space c) (dropWhile is_space (rev s)))
      in if tok = [] then Inl IndexError else Inr tok)"

text \<open>
  \<open>next((r for r in group_rows if (r.get("details") or "").upper().startswith("ITEMS 1 TOTAL")), None)\<close>.
\<close>

definition find_items1 :: "raw_row list \<Rightarrow> raw_row option" where
  "find_items1 group_rows =
     List.find (\<lambda>r. py_startswith (py_upper (str_or_empty (details r))) ''ITEMS 1 TOTAL'')
       group_rows"

text \<open>
  The \<open>try\<close> of rule 3: \<open>float(items1.get("details").split()[-1])\<close>. The token is
  free text, so \<open>float\<close> is the general conversion with its parameter.
\<close>

definition items1_total :: "(string \<Rightarrow> real option) \<Rightarrow> raw_row \<Rightarrow> py_error + real" where
  "items1_total str_to_float items1 =
     (case details items1 of
        None \<Rightarrow> Inl AttributeError
      | Some d \<Rightarrow>
         (case last_token d of
            Inl e \<Rightarrow> Inl e
          | Inr tok \<Rightarrow> py_float str_to_float (PStr tok)))"

text \<open>Rules 3 to 5 for a line that is no quantity line and has none after it.\<close>

definition plain_line_entry ::
  "(string \<Rightarrow> real option) \<Rightarrow> raw_row list \<Rightarrow> string \<Rightarrow> string \<Rightarrow> py_error + item_entry" where
  "plain_line_entry str_to_float group_rows details' code' =
     (let by_price =
            (case description_price_match details' of
               Some (name, price_str) \<Rightarrow>
                 (case float_of_decimal price_str of
                    None \<Rightarrow> Inl ValueError
                  | Some price \<Rightarrow> Inr (name, 1, price, price, code'))
             | None \<Rightarrow> Inr (details', 1, 0.0, 0.0, code'))
      in case find_items1 group_rows of
           None \<Rightarrow> by_price
         | Some items1 \<Rightarrow>
            (case items1_total str_to_float items1 of
               Inr total_val \<Rightarrow> Inr (details', 1, total_val, total_val, code')
             | Inl e \<Rightarrow>
                if e = ValueError \<or> e = IndexError \<or> e = AttributeError then by_price
                else Inl e))"

text \<open>
  The \<open>while\<close> loop, from \<open>index\<close> with the entries so far; an error that no handler
  catches leaves the function.
\<close>

function normalize_loop ::
  "(string \<Rightarrow> real option) \<Rightarrow> raw_row list \<Rightarrow> nat \<Rightarrow> item_entry list
     \<Rightarrow> py_error + item_entry list" where
  "normalize_loop str_to_float group_rows index normalized =
     (if index < length group_rows then
        (let row = group_rows ! index;
             details' = py_strip (str_or_empty (details row));
             code' = str_or_empty (code row)
         in if details' = [] then normalize_loop str_to_float group_rows (index + 1) normalized
            else
             (case qty_price_match details' of
                Some m \<Rightarrow>
                  (case qty_price_numbers m of
                     Inl e \<Rightarrow> Inl e
                   | Inr (qty', unit_price, total_price') \<Rightarrow>
                      (let (name, barcode) =
                             (if index > 0 then
                                (let prev = group_rows ! (index - 1);
                                     pdet = py_strip (str_or_empty (details prev));
                                     pcode = str_or_empty (code prev)
                                 in if pdet \<noteq> [] \<and> qty_price_match pdet = None
                                    then (pdet, if pcode \<noteq> [] then pcode else code')
                                    else (details', code'))
                              else (details', code'))
                       in normalize_loop str_to_float group_rows (index + 1)
                            (normalized @ [(name, qty', unit_price, total_price', barcode)])))
              | None \<Rightarrow>
                  (case (if index + 1 < length group_rows
                         then qty_price_match
                                (py_strip (str_or_empty (details (group_rows ! (index + 1)))))
                         else None) of
                     Some next_match \<Rightarrow>
                       (case qty_price_numbers next_match of
                          Inl e \<Rightarrow> Inl e
                        | Inr (qty', unit_price, total_price') \<Rightarrow>
                            normalize_loop str_to_float group_rows (index + 2)
                              (normalized @ [(details', qty', unit_price, total_price', code')]))
                   | None \<Rightarrow>
                       (case plain_line_entry str_to_float group_rows details' code' of
                          Inl e \<Rightarrow> Inl e
                        | Inr entry \<Rightarrow>
                            normalize_loop str_to_float group_rows (index + 1)
                              (normalized @ [entry])))))
      else Inr normalized)"
  by pat_completeness auto
termination
  by (relation "measure (\<lambda>(f, group_rows, index, normalized). length group_rows - index)") auto

definition normalize_item_rows ::
  "(string \<Rightarrow> real option) \<Rightarrow> raw_row list \<Rightarrow> py_error + item_entry list" where
  "normalize_item_rows str_to_float group_rows = normalize_loop str_to_float group_rows 0 []"

section \<open>Reading the totals\<close>

text \<open>
  The rows that count in \<open>refresh_dashboard_cache\<close>. An EOD row counts when its
  \<open>s_date\<close> is a string that \<open>strptime\<close> parses and its total is not null. A POS2 or
  POS3 row counts when its \<open>trandate\<close> is a non-empty string that \<open>strptime\<close>
  parses and its detail line, stripped and upper-cased, does not hold VOID.
\<close>

definition date_parses :: "refresh_env \<Rightarrow> string option \<Rightarrow> bool" where
  "date_parses env date_str =
     (case date_str of None \<Rightarrow> False | Some ds \<Rightarrow> ds \<noteq> [] \<and> strptime env ds \<noteq> None)"

definition eod_row_counts :: "refresh_env \<Rightarrow> eod_row \<Rightarrow> bool" where
  "eod_row_counts env row =
     ((case s_date row of None \<Rightarrow> False | Some ds \<Rightarrow> strptime env ds \<noteq> None)
      \<and> total row \<noteq> None)"

definition pos_row_counts :: "refresh_env \<Rightarrow> pos_row \<Rightarrow> bool" where
  "pos_row_counts env row =
     (date_parses env (pos_trandate row)
      \<and> \<not> py_in ''VOID'' (py_upper (py_strip (str_or_empty (pos_details row)))))"

text \<open>
  The amount of a row that counts: the \<open>total\<close> of an EOD row, and the last number
  of the stripped detail line of a POS row (0 when it has no number).
\<close>

definition eod_amount :: "eod_row \<Rightarrow> real" where
  "eod_amount row = num_or_0 (total row)"

definition pos_amount_of :: "string \<Rightarrow> real" where
  "pos_amount_of d =
     (let nums = findall_numbers d
      in if nums \<noteq> [] then (case float_of_decimal (last nums) of None \<Rightarrow> 0 | Some a \<Rightarrow> a)
         else 0)"

definition pos_amount :: "pos_row \<Rightarrow> real" where
  "pos_amount row = pos_amount_of (py_strip (str_or_empty (pos_details row)))"

text \<open>
  What a detail line adds to the returns: the first number in it when the line holds
  \<open>return\<close> or \<open>refund\<close>, and nothing when it holds neither or has no number.
\<close>

definition return_amount :: "posaud_row \<Rightarrow> real" where
  "return_amount row =
     (if is_return_line row then
        (case search_number (py_lower (str_or_empty (aud_details row))) of
           None \<Rightarrow> 0
         | Some m \<Rightarrow> (case float_of_decimal m of None \<Rightarrow> 0 | Some x \<Rightarrow> x))
      else 0)"

text \<open>
  What a row adds to the total of \<open>return_transactions_view\<close>: the number after the
  word \<open>amount\<close> when the line, lower-cased and rid of its blanks, holds \<open>return\<close>
  or \<open>refund\<close>, and nothing otherwise. A row is looked at when a row of its slip (a
  row with the same \<open>opref\<close>) holds \<open>return\<close> or \<open>refund\<close>.
\<close>

definition view_line_amount :: "posaud_row \<Rightarrow> real" where
  "view_line_amount r =
     (let details = remove_spaces (py_lower (str_or_empty (aud_details r)))
      in if py_in ''return'' details \<or> py_in ''refund'' details then
           (case search_amount details of
              None \<Rightarrow> 0
            | Some g \<Rightarrow> (case float_of_decimal g of None \<Rightarrow> 0 | Some x \<Rightarrow> x))
         else 0)"

text \<open>What the rows of one slip add together.\<close>

definition slip_total :: "string option \<times> posaud_row list \<Rightarrow> real" where
  "slip_total slip =
     (if list_ex is_return_line (snd slip) then sum_list (map view_line_amount (snd slip))
      else 0)"

definition in_return_slip :: "posaud_row list \<Rightarrow> posaud_row \<Rightarrow> bool" where
  "in_return_slip data r =
     list_ex (\<lambda>r'. aud_opref r' = aud_opref r \<and> is_return_line r') data"

section \<open>Example inputs\<close>

text \<open>
  A calendar for the examples: today is day 739297 (a Saturday), the 15th of a month of
  28 days, and the only date string known is today's.
\<close>

definition example_env :: calendar_env where
  "example_env =
     \<lparr>today = 739297, today_isoformat = ''2025-02-15'', today_day = 15, month_days = 28,
      fromisoformat = (\<lambda>s. if s = ''2025-02-15'' then Some 739297 else None)\<rparr>"

text \<open>
  Two line items of slip 7 (bread, and a refund line for diesel) and one line item with
  no slip id, which falls back on its row id.
\<close>

definition example_items :: "slip_item list" where
  "example_items =
     [\<lparr>item_id = Some 1, slip_id = Some 7, item_name = Some ''Bread'',
       attendant = Some ''Jose'', trandate = Some ''2025-02-15'', trantime = Some ''08:15:00'',
       qty = Some 1, total_price = Some 15, vat = Some 1.96\<rparr>,
      \<lparr>item_id = Some 2, slip_id = Some 7, item_name = Some ''Refund Diesel 50ppm'',
       attendant = Some ''Jose'', trandate = Some ''2025-02-15'', trantime = Some ''08:15:00'',
       qty = Some 10, total_price = Some 228, vat = Some 0\<rparr>,
      \<lparr>item_id = Some 3, slip_id = None, item_name = None,
       attendant = None, trandate = Some ''2025-02-15'', trantime = None,
       qty = None, total_price = Some 7.5, vat = None\<rparr>]"

text \<open>Accumulators holding the figures of some earlier run.\<close>

definition stale_acc :: dashboard_acc where
  "stale_acc =
     \<lparr>total_revenue = 999, total_vat = 99, total_returns = 9, total_transactions = 42,
      fuel_total = 900, nonfuel_total = 99, diesel_total = 500, unleaded_total = 400,
      daily_sales = [(''2025-02-14'', 999)], hourly_sales = [(''09'', 999)],
      staff_sales = [(''Sibu'', (999, 42))], seen_slips = {Some 7}\<rparr>"

definition example_refresh_env :: refresh_env where
  "example_refresh_env =
     \<lparr>refresh_today = 739297, day_of = (\<lambda>d. if d = 739297 then 15 else 4),
      strptime = (\<lambda>s. if s = ''2025-02-15'' then Some 739297 else None)\<rparr>"

definition example_eod_row :: eod_row where
  "example_eod_row =
     \<lparr>s_date = Some ''2025-02-15'', total = Some 100, gradeid = Some ''01'',
      tagid = Some ''94cba1''\<rparr>"

text \<open>A fuel sale whose grade code is neither 01 (unleaded) nor 02 (diesel).\<close>

definition odd_grade_row :: eod_row where
  "odd_grade_row =
     \<lparr>s_date = Some ''2025-02-15'', total = Some 100, gradeid = Some ''03'',
      tagid = None\<rparr>"

definition example_pos_row :: pos_row where
  "example_pos_row = \<lparr>pos_trandate = Some ''2025-02-15'', pos_details = Some ''BREAD 15.00''\<rparr>"

definition example_posaud_rows :: "posaud_row list" where
  "example_posaud_rows =
     [\<lparr>aud_opref = Some ''S1'', aud_trandate = Some ''2025-02-15'',
       aud_details = Some ''REFUND 12.50 BREAD''\<rparr>,
      \<lparr>aud_opref = Some ''S2'', aud_trandate = Some ''2025-02-15'',
       aud_details = Some ''Return to sender''\<rparr>,
      \<lparr>aud_opref = Some ''S2'', aud_trandate = Some ''2025-02-15'',
       aud_details = Some ''MILK 20.00''\<rparr>,
      \<lparr>aud_opref = None, aud_trandate = None, aud_details = None\<rparr>]"

text \<open>
  Amounts with a third decimal: a fuel sale of 100.004, a shop line of 15.004 and a
  refund of 0.006.
\<close>

definition fine_eod_row :: eod_row where
  "fine_eod_row =
     \<lparr>s_date = Some ''2025-02-15'', total = Some 100.004, gradeid = Some ''01'',
      tagid = None\<rparr>"

definition fine_pos_row :: pos_row where
  "fine_pos_row = \<lparr>pos_trandate = Some ''2025-02-15'', pos_details = Some ''BREAD 15.004''\<rparr>"

definition small_refund_row :: posaud_row where
  "small_refund_row =
     \<lparr>aud_opref = Some ''S3'', aud_trandate = Some ''2025-02-15'',
      aud_details = Some ''refund 0.006''\<rparr>"

text \<open>A refund line with a number and without the word \<open>amount\<close>.\<close>

definition refund_bread_row :: posaud_row where
  "refund_bread_row =
     \<lparr>aud_opref = Some ''S1'', aud_trandate = Some ''2025-02-15'',
      aud_details = Some ''REFUND 12.50 BREAD''\<rparr>"

text \<open>A quantity line whose unit price ends in a full stop.\<close>

definition example_bad_line :: raw_row where
  "example_bad_line = \<lparr>details = Some ''2 @ 15.00.'', code = None\<rparr>"

section \<open>Theorems\<close>


lemma py_float_small_int:
  "\<bar>i\<bar> < 2 ^ 64 \<Longrightarrow> py_float f (PInt i) = Inr (of_int i)"
proof -
  have "(2::int) ^ 64 \<le> float_int_limit"
    by (simp add: float_int_limit_def)
  then show "\<bar>i\<bar> < 2 ^ 64 \<Longrightarrow> py_float f (PInt i) = Inr (of_int i)"
    by simp
qed





lemma py_float_error_kind:
  "py_float f v = Inl e \<Longrightarrow> e = TypeError \<or> e = ValueError \<or> e = OverflowError"
  by (cases v) (auto split: option.splits if_splits)

text \<open>
  What the handler does give: 0 when a reading is None, when the conversion of the
  opening reading raises a TypeError or a ValueError, and when the opening reading
  converts and the conversion of the closing reading raises one of the two.
\<close>

lemma calc_dispensed_soft_when_caught:
  assumes "opening = PNone \<or> closing = PNone
           \<or> py_float f opening = Inl TypeError \<or> py_float f opening = Inl ValueError
           \<or> (\<not> isl (py_float f opening)
                \<and> (py_float f closing = Inl TypeError \<or> py_float f closing = Inl ValueError))"
  shows "calc_dispensed f opening closing max_meter = Inr 0"
  using assms by (auto simp: calc_dispensed_def split: sum.splits)

text \<open>
  Claim C8 fails on the code: with an integer too large for a float as the opening
  reading and a closing reading that is not a number, \<open>float\<close> raises an OverflowError
  on the opening reading, the handler lets it through and the function raises instead
  of returning 0, whatever \<open>float\<close> makes of strings.
\<close>

theorem calc_dispensed_raises_overflow:
  "calc_dispensed str_to_float (PInt (10 ^ 309)) (PStr ''abc'') 100000 = Inl OverflowError"
proof -
  have "float_int_limit \<le> \<bar>10 ^ 309\<bar>"
    by (simp add: float_int_limit_def)
  then have "py_float str_to_float (PInt (10 ^ 309)) = Inl OverflowError"
    by simp
  then show ?thesis
    by (simp add: calc_dispensed_def)
qed

subsection \<open>Rate lookup\<close>

lemma sorted_le_last: "sorted xs \<Longrightarrow> x \<in> set xs \<Longrightarrow> x \<le> last xs"
  by (induction xs) auto

lemma py_sorted_reverse_hd:
  assumes "xs \<noteq> []"
  shows "hd (py_sorted_reverse key xs) \<in> set xs
    \<and> (\<forall>x\<in>set xs. key x \<le> key (hd (py_sorted_reverse key xs)))"
proof -
  let ?ys = "sort_key key (rev xs)"
  have ne: "?ys \<noteq> []" using assms by (metis length_0_conv length_rev length_sort)
  have hd: "hd (py_sorted_reverse key xs) = last ?ys"
    using ne by (simp add: py_sorted_reverse_def hd_rev)
  have mem: "last ?ys \<in> set xs" using ne last_in_set [OF ne] by simp
  have srt: "sorted (map key ?ys)" by simp
  have "key x \<le> key (last ?ys)" if "x \<in> set xs" for x
  proof -
    from that have "key x \<in> set (map key ?ys)" by simp
    with srt have "key x \<le> last (map key ?ys)"
      by (rule sorted_le_last)
    then show ?thesis using ne by (simp add: last_map)
  qed
  with hd mem show ?thesis by simp
qed

lemma get_rate_for_date_cases:
  "(if \<exists>r\<in>set rates. rate_name r = name \<and> start_date r \<le> d
    then \<exists>r\<in>set rates. rate_name r = name \<and> start_date r \<le> d
           \<and> (\<forall>r'\<in>set rates. rate_name r' = name \<and> start_date r' \<le> d
                  \<longrightarrow> start_date r' \<le> start_date r)
           \<and> get_rate_for_date rates name d = rate_value r
    else get_rate_for_date rates name d = 0)"
proof -
  let ?c = "filter (\<lambda>r. start_date r \<le> d) (rate_lookup rates name)"
  have set_c: "set ?c = {r \<in> set rates. rate_name r = name \<and> start_date r \<le> d}"
    by (auto simp: rate_lookup_def)
  show ?thesis
  proof (cases "?c = []")
    case True
    then have "\<not> (\<exists>r\<in>set rates. rate_name r = name \<and> start_date r \<le> d)"
      using set_c by (metis (mono_tags, lifting) empty_iff list.set(1) mem_Collect_eq)
    moreover from True have "get_rate_for_date rates name d = 0"
      by (simp add: get_rate_for_date_def)
    ultimately show ?thesis by (simp only: if_False)
  next
    case False
    let ?r = "hd (py_sorted_reverse start_date ?c)"
    from py_sorted_reverse_hd [OF False, of start_date]
    have m: "?r \<in> set ?c" and mx: "\<forall>x\<in>set ?c. start_date x \<le> start_date ?r" by auto
    have v: "get_rate_for_date rates name d = rate_value ?r"
      using False by (simp add: get_rate_for_date_def Let_def)
    from m set_c have r1: "?r \<in> set rates" "rate_name ?r = name" "start_date ?r \<le> d" by auto
    have r2: "\<forall>r'\<in>set rates. rate_name r' = name \<and> start_date r' \<le> d
                  \<longrightarrow> start_date r' \<le> start_date ?r"
      using mx set_c by auto
    have ex: "\<exists>r\<in>set rates. rate_name r = name \<and> start_date r \<le> d" using r1 by blast
    show ?thesis using ex r1 r2 v by (simp only: if_True) blast
  qed
qed

text \<open>
  Claim C2. For every list of rates, rate name (fuel grade) and report date: when some
  rate of that name starts on or before the report date, the lookup returns the value
  of such a rate whose start date is the latest among them; when none does, it returns
  0. For the rates starting 2025-01-01 (value 20) and 2025-03-01 (value 22), the lookup
  at 2025-02-15 returns 20.
\<close>

theorem get_rate_for_date_most_recent:
  "(if \<exists>r\<in>set rates. rate_name r = name \<and> start_date r \<le> d
    then \<exists>r\<in>set rates. rate_name r = name \<and> start_date r \<le> d
           \<and> (\<forall>r'\<in>set rates. rate_name r' = name \<and> start_date r' \<le> d
                  \<longrightarrow> start_date r' \<le> start_date r)
           \<and> get_rate_for_date rates name d = rate_value r
    else get_rate_for_date rates name d = 0)
   \<and> get_rate_for_date example_rates ''rate_r22_12'' ''2025-02-15'' = 20"
proof -
  have "get_rate_for_date example_rates ''rate_r22_12'' ''2025-02-15'' = 20"
    by (simp add: get_rate_for_date_def rate_lookup_def py_sorted_reverse_def
        example_rates_def)
  with get_rate_for_date_cases [of rates name d] show ?thesis by simp
qed

theorem get_rate_for_date_most_recent_witness:
  "get_rate_for_date example_rates ''rate_r22_12'' ''2024-12-31'' = 0
   \<and> get_rate_for_date example_rates ''rate_r22_12'' ''2025-02-15'' = 20
   \<and> get_rate_for_date example_rates ''rate_r23_36'' ''2025-02-15'' = 0"
proof -
  have a: "get_rate_for_date example_rates ''rate_r22_12'' ''2024-12-31'' = 0"
    using get_rate_for_date_most_recent [of example_rates "''rate_r22_12''" "''2024-12-31''"]
    by (simp add: example_rates_def)
  have b: "get_rate_for_date example_rates ''rate_r22_12'' ''2025-02-15'' = 20"
    using get_rate_for_date_most_recent [of example_rates "''rate_r22_12''" "''2025-02-15''"]
    by simp
  have c: "get_rate_for_date example_rates ''rate_r23_36'' ''2025-02-15'' = 0"
    using get_rate_for_date_most_recent [of example_rates "''rate_r23_36''" "''2025-02-15''"]
    by (simp add: example_rates_def)
  from a b c show ?thesis by simp
qed

subsection \<open>The admin dashboard aggregation\<close>

lemma aggregate_item_total_revenue:
  "total_revenue (aggregate_item item acc) = total_revenue acc + item_amount item"
  by (simp add: aggregate_item_def Let_def split: option.splits)

lemma aggregate_item_total_returns:
  "total_returns (aggregate_item item acc) = total_returns acc"
  by (simp add: aggregate_item_def Let_def split: option.splits)

lemma aggregate_item_fuel_total:
  "fuel_total (aggregate_item item acc)
     = fuel_total acc + (if item_is_fuel item then item_amount item else 0)"
  by (simp add: aggregate_item_def Let_def item_is_fuel_def split: option.splits)

lemma aggregate_item_nonfuel_total:
  "nonfuel_total (aggregate_item item acc)
     = nonfuel_total acc + (if item_is_fuel item then 0 else item_amount item)"
  by (simp add: aggregate_item_def Let_def item_is_fuel_def split: option.splits)

lemma aggregate_item_seen_slips:
  "seen_slips (aggregate_item item acc) = insert (slip_key item) (seen_slips acc)"
  by (simp add: aggregate_item_def Let_def insert_absorb split: option.splits)

lemma aggregate_item_total_transactions:
  "total_transactions (aggregate_item item acc)
     = total_transactions acc + (if slip_key item \<in> seen_slips acc then 0 else 1)"
  by (simp add: aggregate_item_def Let_def split: option.splits)

lemma aggregate_items_total_revenue:
  "total_revenue (aggregate_items items acc)
     = total_revenue acc + sum_list (map item_amount items)"
  by (induction items arbitrary: acc) (simp_all add: aggregate_item_total_revenue)

lemma aggregate_items_total_returns:
  "total_returns (aggregate_items items acc) = total_returns acc"
  by (induction items arbitrary: acc) (simp_all add: aggregate_item_total_returns)

lemma aggregate_items_fuel_total:
  "fuel_total (aggregate_items items acc)
     = fuel_total acc + sum_list (map item_amount (filter item_is_fuel items))"
  by (induction items arbitrary: acc) (simp_all add: aggregate_item_fuel_total)

lemma aggregate_items_nonfuel_total:
  "nonfuel_total (aggregate_items items acc)
     = nonfuel_total acc + sum_list (map item_amount (filter (\<lambda>i. \<not> item_is_fuel i) items))"
  by (induction items arbitrary: acc) (simp_all add: aggregate_item_nonfuel_total)

lemma aggregate_items_seen_slips:
  "seen_slips (aggregate_items items acc) = seen_slips acc \<union> slip_key ` set items"
  by (induction items arbitrary: acc) (simp_all add: aggregate_item_seen_slips)

lemma aggregate_items_total_transactions:
  "finite (seen_slips acc) \<Longrightarrow>
   total_transactions (aggregate_items items acc)
     = total_transactions acc + card (slip_key ` set items - seen_slips acc)"
proof (induction items arbitrary: acc)
  case Nil
  then show ?case by simp
next
  case (Cons item rest)
  let ?acc' = "aggregate_item item acc"
  have seen': "seen_slips ?acc' = insert (slip_key item) (seen_slips acc)"
    by (rule aggregate_item_seen_slips)
  have fin: "finite (seen_slips ?acc')" using Cons.prems seen' by simp
  have step: "total_transactions (aggregate_items (item # rest) acc)
      = total_transactions ?acc' + card (slip_key ` set rest - seen_slips ?acc')"
    using Cons.IH [OF fin] by simp
  show ?case
  proof (cases "slip_key item \<in> seen_slips acc")
    case True
    then have "slip_key ` set (item # rest) - seen_slips acc
        = slip_key ` set rest - seen_slips ?acc'"
      unfolding seen' by auto
    with step True show ?thesis by (simp add: aggregate_item_total_transactions)
  next
    case False
    have eq: "slip_key ` set (item # rest) - seen_slips acc
        = insert (slip_key item) (slip_key ` set rest - seen_slips ?acc')"
      unfolding seen' using False by auto
    have "card (slip_key ` set (item # rest) - seen_slips acc)
        = Suc (card (slip_key ` set rest - seen_slips ?acc'))"
      unfolding eq by (rule card_insert_disjoint) (auto simp: seen')
    with step False show ?thesis by (simp add: aggregate_item_total_transactions)
  qed
qed

lemma admin_dashboard_init_fields:
  "total_revenue (admin_dashboard_init st) = 0"
  "total_returns (admin_dashboard_init st) = 0"
  "total_transactions (admin_dashboard_init st) = 0"
  "fuel_total (admin_dashboard_init st) = 0"
  "nonfuel_total (admin_dashboard_init st) = 0"
  "seen_slips (admin_dashboard_init st) = {}"
  by (simp_all add: admin_dashboard_init_def)

lemma admin_transactions:
  "total_transactions (admin_dashboard_totals all_data st) = card (slip_key ` set all_data)"
  using aggregate_items_total_transactions [of "admin_dashboard_init st" all_data]
  by (simp add: admin_dashboard_totals_def admin_dashboard_init_fields)

lemma admin_split:
  "total_revenue (admin_dashboard_totals all_data st)
     = fuel_total (admin_dashboard_totals all_data st)
       + nonfuel_total (admin_dashboard_totals all_data st)
   \<and> fuel_total (admin_dashboard_totals all_data st)
     = sum_list (map item_amount (filter item_is_fuel all_data))
   \<and> nonfuel_total (admin_dashboard_totals all_data st)
     = sum_list (map item_amount (filter (\<lambda>i. \<not> item_is_fuel i) all_data))
   \<and> total_revenue (admin_dashboard_totals all_data st)
     = sum_list (map item_amount all_data)"
proof -
  have "sum_list (map item_amount all_data)
      = sum_list (map item_amount (filter item_is_fuel all_data))
        + sum_list (map item_amount (filter (\<lambda>i. \<not> item_is_fuel i) all_data))"
    by (induction all_data) simp_all
  then show ?thesis
    by (simp add: admin_dashboard_totals_def admin_dashboard_init_fields
        aggregate_items_total_revenue aggregate_items_fuel_total
        aggregate_items_nonfuel_total)
qed

lemma example_totals:
  "admin_dashboard_totals example_items stale_acc =
     \<lparr>total_revenue = 501 / 2, total_vat = 49 / 25, total_returns = 0,
      total_transactions = 2, fuel_total = 228, nonfuel_total = 45 / 2,
      diesel_total = 228, unleaded_total = 0,
      daily_sales = [(''2025-02-15'', 501 / 2)],
      hourly_sales = [(''08'', 243)],
      staff_sales = [(''Jose'', 243, 2), (''Unknown'', 15 / 2, 1)],
      seen_slips = {Some 3, Some 7}\<rparr>"
  by (simp add: admin_dashboard_totals_def admin_dashboard_init_def stale_acc_def
      example_items_def aggregate_item_def Let_def item_amount_def item_upper_name_def
      item_attendant_def slip_key_def num_or_0_def str_or_empty_def py_upper_def
      dict_add_def dict_get_def insert_commute)

subsection \<open>The cached dashboard\<close>

lemma not_digit_dot: "\<not> is_digit (CHR ''.'')"
  by (simp add: is_digit_def)

lemma float_of_decimal_digits:
  "ip \<noteq> [] \<Longrightarrow> list_all is_digit ip \<Longrightarrow> float_of_decimal ip \<noteq> None"
proof -
  assume ne: "ip \<noteq> []" and all: "list_all is_digit ip"
  have t: "takeWhile is_digit ip = ip" and d: "dropWhile is_digit ip = []"
    using all by (simp_all add: list_all_iff)
  show ?thesis using ne by (simp add: float_of_decimal_def t d)
qed

lemma float_of_decimal_digits_dot:
  assumes "ip \<noteq> []" and "list_all is_digit ip" and "list_all is_digit fp"
  shows "float_of_decimal (ip @ CHR ''.'' # fp) \<noteq> None"
proof -
  have allp: "\<forall>x\<in>set ip. is_digit x" using assms(2) by (simp add: list_all_iff)
  have t: "takeWhile is_digit (ip @ CHR ''.'' # fp) = ip"
    using allp by (simp add: takeWhile_append2 not_digit_dot)
  have d: "dropWhile is_digit (ip @ CHR ''.'' # fp) = CHR ''.'' # fp"
    using allp by (simp add: dropWhile_append2 not_digit_dot)
  show ?thesis using assms(1,3) by (simp add: float_of_decimal_def t d)
qed

lemma takeWhile_all: "list_all P (takeWhile P xs)"
  by (induction xs) simp_all

lemma findall_numbers_decimal:
  "m \<in> set (findall_numbers s) \<Longrightarrow> float_of_decimal m \<noteq> None"
proof (induction s arbitrary: m rule: findall_numbers.induct)
  case 1
  then show ?case by simp
next
  case (2 c cs)
  show ?case
  proof (cases "is_digit c")
    case False
    with 2 show ?thesis by simp
  next
    case True
    define ip where "ip = takeWhile is_digit (c # cs)"
    define r where "r = dropWhile is_digit (c # cs)"
    have eq: "findall_numbers (c # cs) =
        (case r of
           [] \<Rightarrow> [ip]
         | d # r' \<Rightarrow>
             if d = CHR ''.''
             then (ip @ CHR ''.'' # takeWhile is_digit r') # findall_numbers (dropWhile is_digit r')
             else ip # findall_numbers r)"
      using True unfolding ip_def r_def by (simp only: findall_numbers.simps Let_def if_True)
    have ipne: "ip \<noteq> []" using True by (simp add: ip_def)
    have ipall: "list_all is_digit ip" unfolding ip_def by (rule takeWhile_all)
    have ipok: "float_of_decimal ip \<noteq> None"
      using ipne ipall by (rule float_of_decimal_digits)
    show ?thesis
    proof (cases r)
      case Nil
      with eq "2.prems" have "m = ip" by simp
      with ipok show ?thesis by simp
    next
      case (Cons d r')
      show ?thesis
      proof (cases "d = CHR ''.''")
        case dot: True
        from eq Cons dot "2.prems"
        have "m = ip @ CHR ''.'' # takeWhile is_digit r'
              \<or> m \<in> set (findall_numbers (dropWhile is_digit r'))"
          by simp
        then show ?thesis
        proof
          assume "m = ip @ CHR ''.'' # takeWhile is_digit r'"
          then show ?thesis
            using float_of_decimal_digits_dot [OF ipne ipall takeWhile_all [of is_digit r']]
            by simp
        next
          assume m: "m \<in> set (findall_numbers (dropWhile is_digit r'))"
          show ?thesis
            by (rule "2.IH"(1) [OF True ip_def r_def Cons dot m])
        qed
      next
        case nodot: False
        from eq Cons nodot "2.prems"
        have "m = ip \<or> m \<in> set (findall_numbers r)"
          by simp
        then show ?thesis
        proof
          assume "m = ip"
          with ipok show ?thesis by simp
        next
          assume m: "m \<in> set (findall_numbers r)"
          show ?thesis
            by (rule "2.IH"(2) [OF True ip_def r_def Cons nodot m])
        qed
      qed
    qed
  qed
qed

lemma last_number_converts:
  "findall_numbers d \<noteq> [] \<Longrightarrow>
   float_of_decimal (last (findall_numbers d)) = Some (pos_amount_of d)"
proof -
  assume ne: "findall_numbers d \<noteq> []"
  then have "last (findall_numbers d) \<in> set (findall_numbers d)" by simp
  then have "float_of_decimal (last (findall_numbers d)) \<noteq> None"
    by (rule findall_numbers_decimal)
  then show ?thesis using ne by (auto simp: pos_amount_of_def)
qed

lemma pos_row_step_eq:
  "pos_row_step env t row =
     (if pos_row_counts env row then
        (case pos_trandate row of
           None \<Rightarrow> t
         | Some date_str \<Rightarrow>
            (let amount = pos_amount row;
                 t4 = add_periods env (the (strptime env date_str)) amount
                        (t\<lparr>nonfuel := nonfuel t + amount, revenue := revenue t + amount,
                           transactions := transactions t + 1\<rparr>)
             in t4\<lparr>daily_trends :=
                      AList.update date_str (dict_get (daily_trends t4) date_str 0 + amount)
                        (daily_trends t4)\<rparr>))
      else t)"
proof (cases "findall_numbers (py_strip (str_or_empty (pos_details row))) = []")
  case True
  then show ?thesis
    by (auto simp: pos_row_step_def pos_row_counts_def date_parses_def pos_row_body_def
        pos_amount_def pos_amount_of_def Let_def split: option.splits)
next
  case False
  from last_number_converts [OF False] False show ?thesis
    by (auto simp: pos_row_step_def pos_row_counts_def date_parses_def pos_row_body_def
        pos_amount_def Let_def split: option.splits)
qed

lemma add_periods_fields:
  "fuel (add_periods env d a t) = fuel t"
  "nonfuel (add_periods env d a t) = nonfuel t"
  "revenue (add_periods env d a t) = revenue t"
  "returns (add_periods env d a t) = returns t"
  "transactions (add_periods env d a t) = transactions t"
  by (simp_all add: add_periods_def Let_def)

lemma eod_row_step_transactions:
  "transactions (eod_row_step env t row)
     = transactions t + (if eod_row_counts env row then 1 else 0)"
  by (simp add: eod_row_step_def eod_row_counts_def eod_row_body_def Let_def
      add_periods_fields split: option.splits)

lemma eod_row_step_balance:
  "revenue (eod_row_step env t row) - fuel (eod_row_step env t row)
     - nonfuel (eod_row_step env t row) = revenue t - fuel t - nonfuel t"
  by (simp add: eod_row_step_def eod_row_body_def Let_def add_periods_fields
      split: option.splits)

lemma eod_row_step_returns: "returns (eod_row_step env t row) = returns t"
  by (simp add: eod_row_step_def eod_row_body_def Let_def add_periods_fields
      split: option.splits)

lemma pos_row_step_transactions:
  "transactions (pos_row_step env t row)
     = transactions t + (if pos_row_counts env row then 1 else 0)"
  by (auto simp: pos_row_step_eq Let_def add_periods_fields pos_row_counts_def
      date_parses_def split: option.splits)

lemma pos_row_step_balance:
  "revenue (pos_row_step env t row) - fuel (pos_row_step env t row)
     - nonfuel (pos_row_step env t row) = revenue t - fuel t - nonfuel t"
  by (simp add: pos_row_step_def pos_row_body_def Let_def add_periods_fields
      split: option.splits)

lemma pos_row_step_returns: "returns (pos_row_step env t row) = returns t"
  by (simp add: pos_row_step_def pos_row_body_def Let_def add_periods_fields
      split: option.splits)

lemma return_row_step_fields:
  "transactions (return_row_step t row) = transactions t"
  "revenue (return_row_step t row) = revenue t"
  "fuel (return_row_step t row) = fuel t"
  "nonfuel (return_row_step t row) = nonfuel t"
  by (simp_all add: return_row_step_def return_row_body_def Let_def split: option.splits)

lemma return_row_step_returns:
  "returns (return_row_step t row) = returns t + return_amount row"
  by (simp add: return_row_step_def return_row_body_def return_amount_def
      is_return_line_def Let_def split: option.splits)


lemma foldl_eod_transactions:
  "transactions (foldl (eod_row_step env) t rows)
     = transactions t + length (filter (eod_row_counts env) rows)"
  by (induction rows arbitrary: t) (simp_all add: eod_row_step_transactions)

lemma foldl_eod_balance:
  "revenue (foldl (eod_row_step env) t rows) - fuel (foldl (eod_row_step env) t rows)
     - nonfuel (foldl (eod_row_step env) t rows) = revenue t - fuel t - nonfuel t"
proof (induction rows arbitrary: t)
  case Nil
  show ?case by simp
next
  case (Cons row rows)
  show ?case using Cons.IH [of "eod_row_step env t row"] eod_row_step_balance [of env t row]
    by simp
qed

lemma foldl_eod_returns: "returns (foldl (eod_row_step env) t rows) = returns t"
  by (induction rows arbitrary: t) (simp_all add: eod_row_step_returns)

lemma foldl_pos_transactions:
  "transactions (foldl (pos_row_step env) t rows)
     = transactions t + length (filter (pos_row_counts env) rows)"
  by (induction rows arbitrary: t) (simp_all add: pos_row_step_transactions)

lemma foldl_pos_balance:
  "revenue (foldl (pos_row_step env) t rows) - fuel (foldl (pos_row_step env) t rows)
     - nonfuel (foldl (pos_row_step env) t rows) = revenue t - fuel t - nonfuel t"
proof (induction rows arbitrary: t)
  case Nil
  show ?case by simp
next
  case (Cons row rows)
  show ?case using Cons.IH [of "pos_row_step env t row"] pos_row_step_balance [of env t row]
    by simp
qed

lemma foldl_pos_returns: "returns (foldl (pos_row_step env) t rows) = returns t"
  by (induction rows arbitrary: t) (simp_all add: pos_row_step_returns)

lemma foldl_return_fields:
  "transactions (foldl return_row_step t rows) = transactions t"
  "revenue (foldl return_row_step t rows) = revenue t"
  "fuel (foldl return_row_step t rows) = fuel t"
  "nonfuel (foldl return_row_step t rows) = nonfuel t"
  by (induction rows arbitrary: t; simp add: return_row_step_fields)+

lemma foldl_return_returns:
  "returns (foldl return_row_step t rows) = returns t + sum_list (map return_amount rows)"
  by (induction rows arbitrary: t) (simp_all add: return_row_step_returns)

lemma float_of_decimal_nonneg: "float_of_decimal s = Some x \<Longrightarrow> 0 \<le> x"
  by (auto simp: float_of_decimal_def Let_def split: list.splits if_splits)

lemma return_amount_nonneg: "0 \<le> return_amount row"
  by (auto simp: return_amount_def dest: float_of_decimal_nonneg split: option.splits)

lemma refresh_init_fields:
  "transactions refresh_init = 0" "revenue refresh_init = 0" "fuel refresh_init = 0"
  "nonfuel refresh_init = 0" "returns refresh_init = 0"
  by (simp_all add: refresh_init_def)

lemma refresh_transactions:
  "transactions (refresh_totals_of env eod_data pos2_data pos3_data posaud_data)
     = length (filter (eod_row_counts env) eod_data)
       + length (filter (pos_row_counts env) (pos2_data @ pos3_data))"
  by (simp add: refresh_totals_of_def foldl_return_fields foldl_pos_transactions
      foldl_eod_transactions refresh_init_fields)

lemma refresh_balance:
  "revenue (refresh_totals_of env eod_data pos2_data pos3_data posaud_data)
     = fuel (refresh_totals_of env eod_data pos2_data pos3_data posaud_data)
       + nonfuel (refresh_totals_of env eod_data pos2_data pos3_data posaud_data)"
proof -
  let ?e = "foldl (eod_row_step env) refresh_init eod_data"
  let ?p = "foldl (pos_row_step env) ?e (pos2_data @ pos3_data)"
  have "revenue ?p - fuel ?p - nonfuel ?p = revenue ?e - fuel ?e - nonfuel ?e"
    by (rule foldl_pos_balance)
  also have "\<dots> = revenue refresh_init - fuel refresh_init - nonfuel refresh_init"
    by (rule foldl_eod_balance)
  finally have "revenue ?p = fuel ?p + nonfuel ?p" by (simp add: refresh_init_fields)
  then show ?thesis by (simp only: refresh_totals_of_def foldl_return_fields)
qed

lemma refresh_returns:
  "returns (refresh_totals_of env eod_data pos2_data pos3_data posaud_data)
     = sum_list (map return_amount posaud_data)"
  by (simp add: refresh_totals_of_def foldl_return_returns foldl_pos_returns
      foldl_eod_returns refresh_init_fields)

lemma sum_list_return_amount_nonneg: "0 \<le> sum_list (map return_amount rows)"
  by (induction rows) (simp_all add: return_amount_nonneg)

lemma eod_row_step_fuel:
  "fuel (eod_row_step env t row)
     = fuel t + (if eod_row_counts env row then eod_amount row else 0)"
  by (simp add: eod_row_step_def eod_row_counts_def eod_row_body_def Let_def
      add_periods_fields eod_amount_def num_or_0_def split: option.splits)

lemma eod_row_step_nonfuel: "nonfuel (eod_row_step env t row) = nonfuel t"
  by (simp add: eod_row_step_def eod_row_body_def Let_def add_periods_fields
      split: option.splits)

lemma pos_row_step_nonfuel:
  "nonfuel (pos_row_step env t row)
     = nonfuel t + (if pos_row_counts env row then pos_amount row else 0)"
  by (auto simp: pos_row_step_eq Let_def add_periods_fields pos_row_counts_def
      date_parses_def split: option.splits)

lemma pos_row_step_fuel: "fuel (pos_row_step env t row) = fuel t"
  by (simp add: pos_row_step_def pos_row_body_def Let_def add_periods_fields
      split: option.splits)

lemma foldl_eod_fuel:
  "fuel (foldl (eod_row_step env) t rows)
     = fuel t + sum_list (map eod_amount (filter (eod_row_counts env) rows))"
  by (induction rows arbitrary: t) (simp_all add: eod_row_step_fuel)

lemma foldl_eod_nonfuel: "nonfuel (foldl (eod_row_step env) t rows) = nonfuel t"
  by (induction rows arbitrary: t) (simp_all add: eod_row_step_nonfuel)

lemma foldl_pos_nonfuel:
  "nonfuel (foldl (pos_row_step env) t rows)
     = nonfuel t + sum_list (map pos_amount (filter (pos_row_counts env) rows))"
  by (induction rows arbitrary: t) (simp_all add: pos_row_step_nonfuel)

lemma foldl_pos_fuel: "fuel (foldl (pos_row_step env) t rows) = fuel t"
  by (induction rows arbitrary: t) (simp_all add: pos_row_step_fuel)

lemma refresh_fuel:
  "fuel (refresh_totals_of env eod_data pos2_data pos3_data posaud_data)
     = sum_list (map eod_amount (filter (eod_row_counts env) eod_data))"
  by (simp add: refresh_totals_of_def foldl_return_fields foldl_pos_fuel foldl_eod_fuel
      refresh_init_fields)

lemma refresh_nonfuel:
  "nonfuel (refresh_totals_of env eod_data pos2_data pos3_data posaud_data)
     = sum_list (map pos_amount (filter (pos_row_counts env) (pos2_data @ pos3_data)))"
  by (simp add: refresh_totals_of_def foldl_return_fields foldl_pos_nonfuel
      foldl_eod_nonfuel refresh_init_fields)

lemma odd_grade_totals:
  "refresh_totals_of example_refresh_env [odd_grade_row] [] [] [] =
     \<lparr>daily = 100, weekly = 100, monthly = 100, fuel = 100, diesel = 0,
      unleaded = 0, nonfuel = 0, revenue = 100, returns = 0,
      transactions = 1, staff_perf = [(''Unknown'', 100, 1)],
      daily_trends = [(''2025-02-15'', 100)]\<rparr>"
  by (simp add: refresh_totals_of_def refresh_init_def example_refresh_env_def
      odd_grade_row_def eod_row_step_def eod_row_body_def add_periods_def week_start_def
      week_end_def month_start_def month_end_def next_month_def weekday_def Let_def
      py_strip_def py_upper_def str_or_empty_def is_space_def
      dict_get_def TAGID_ATTENDANT_MAP_def)

subsection \<open>The returns listing\<close>

lemma return_line_step_eq: "return_line_step s r = s + view_line_amount r"
  by (simp add: return_line_step_def view_line_amount_def Let_def split: option.splits)

lemma foldl_return_line_step:
  "foldl return_line_step s rs = s + sum_list (map view_line_amount rs)"
  by (induction rs arbitrary: s) (simp_all add: return_line_step_eq)

lemma slip_step_eq: "slip_step s slip = s + slip_total slip"
  by (cases slip) (simp add: slip_step_def slip_total_def foldl_return_line_step)

lemma foldl_slip_step: "foldl slip_step s g = s + sum_list (map slip_total g)"
  by (induction g arbitrary: s) (simp_all add: slip_step_eq)

lemma filter_key_absent: "k \<notin> f ` set xs \<Longrightarrow> filter (\<lambda>r. f r = k) xs = []"
  by (induction xs) auto

lemma group_by_opref_inv:
  "distinct (map fst (group_by_opref data))
   \<and> (\<forall>k. map_of (group_by_opref data) k =
          (if k \<in> aud_opref ` set data then Some (filter (\<lambda>r. aud_opref r = k) data)
           else None))"
proof (induction data rule: rev_induct)
  case Nil
  show ?case by (simp add: group_by_opref_def)
next
  case (snoc x xs)
  let ?g = "group_by_opref xs"
  let ?k = "aud_opref x"
  have step: "group_by_opref (xs @ [x]) = AList.update ?k (dict_get ?g ?k [] @ [x]) ?g"
    by (simp add: group_by_opref_def group_step_def)
  have dist: "distinct (map fst ?g)" using snoc.IH by simp
  have look: "map_of ?g k =
      (if k \<in> aud_opref ` set xs then Some (filter (\<lambda>r. aud_opref r = k) xs) else None)" for k
    using snoc.IH by simp
  have old: "dict_get ?g ?k [] = filter (\<lambda>r. aud_opref r = ?k) xs"
  proof (cases "?k \<in> aud_opref ` set xs")
    case True
    then show ?thesis by (simp add: dict_get_def look)
  next
    case False
    then have "filter (\<lambda>r. aud_opref r = ?k) xs = []"
      by (rule filter_key_absent)
    with False show ?thesis by (simp add: dict_get_def look)
  qed
  have d': "distinct (map fst (group_by_opref (xs @ [x])))"
    unfolding step using dist by (rule AList.distinct_update)
  have l': "map_of (group_by_opref (xs @ [x])) k =
      (if k \<in> aud_opref ` set (xs @ [x])
       then Some (filter (\<lambda>r. aud_opref r = k) (xs @ [x])) else None)" for k
    unfolding step by (auto simp: AList.update_conv' old look)
  from d' l' show ?case by blast
qed

lemma sum_list_no_key:
  "k \<notin> set ks \<Longrightarrow> sum_list (map (\<lambda>k'. if k = k' then (v::real) else 0) ks) = 0"
  by (induction ks) auto

lemma sum_list_one_key:
  "distinct ks \<Longrightarrow> k \<in> set ks \<Longrightarrow>
   sum_list (map (\<lambda>k'. if k = k' then (v::real) else 0) ks) = v"
  by (induction ks) (auto simp: sum_list_no_key)

lemma sum_list_by_key:
  fixes h :: "'a \<Rightarrow> real"
  assumes "distinct ks" and "key ` set xs \<subseteq> set ks"
  shows "sum_list (map (\<lambda>k. sum_list (map h (filter (\<lambda>r. key r = k) xs))) ks)
         = sum_list (map h xs)"
  using assms(2)
proof (induction xs)
  case Nil
  show ?case by simp
next
  case (Cons x xs)
  have split: "sum_list (map h (filter (\<lambda>r. key r = k) (x # xs)))
      = (if key x = k then h x else 0) + sum_list (map h (filter (\<lambda>r. key r = k) xs))" for k
    by simp
  have "sum_list (map (\<lambda>k. sum_list (map h (filter (\<lambda>r. key r = k) (x # xs)))) ks)
      = sum_list (map (\<lambda>k. if key x = k then h x else 0) ks)
        + sum_list (map (\<lambda>k. sum_list (map h (filter (\<lambda>r. key r = k) xs))) ks)"
    by (simp only: split sum_list_addf)
  also have "sum_list (map (\<lambda>k. if key x = k then h x else 0) ks) = h x"
    using assms(1) Cons.prems by (intro sum_list_one_key) auto
  also have "sum_list (map (\<lambda>k. sum_list (map h (filter (\<lambda>r. key r = k) xs))) ks)
      = sum_list (map h xs)"
    using Cons.prems by (intro Cons.IH) auto
  finally show ?case by simp
qed

lemma sum_list_filter_if:
  "sum_list (map (\<lambda>r. if P r then f r else (0::real)) xs) = sum_list (map f (filter P xs))"
  by (induction xs) simp_all

lemma list_ex_filter_key:
  "list_ex is_return_line (filter (\<lambda>r'. aud_opref r' = k) data)
   = list_ex (\<lambda>r'. aud_opref r' = k \<and> is_return_line r') data"
  by (induction data) auto

lemma return_transactions_total_flat:
  "return_transactions_total data
     = sum_list (map view_line_amount (filter (in_return_slip data) data))"
proof -
  let ?g = "group_by_opref data"
  let ?h = "\<lambda>r. if in_return_slip data r then view_line_amount r else 0"
  have dist: "distinct (map fst ?g)" using group_by_opref_inv [of data] by simp
  have look: "map_of ?g k =
      (if k \<in> aud_opref ` set data then Some (filter (\<lambda>r. aud_opref r = k) data) else None)"
    for k using group_by_opref_inv [of data] by simp
  have rows: "rs = filter (\<lambda>r. aud_opref r = k) data" if "(k, rs) \<in> set ?g" for k rs
  proof -
    from that dist have "map_of ?g k = Some rs" by simp
    then show ?thesis by (simp add: look split: if_splits)
  qed
  have keys: "aud_opref ` set data \<subseteq> set (map fst ?g)"
  proof
    fix k assume "k \<in> aud_opref ` set data"
    then have "map_of ?g k \<noteq> None" by (simp add: look)
    then show "k \<in> set (map fst ?g)" by (simp add: map_of_eq_None_iff)
  qed
  have slip: "slip_total p = sum_list (map ?h (filter (\<lambda>r. aud_opref r = fst p) data))"
    if "p \<in> set ?g" for p
  proof -
    obtain k rs where p: "p = (k, rs)" by (cases p)
    with that have rs: "rs = filter (\<lambda>r. aud_opref r = k) data" by (simp add: rows)
    have "sum_list (map ?h rs)
        = (if list_ex is_return_line rs then sum_list (map view_line_amount rs) else 0)"
    proof -
      have "?h r = (if list_ex is_return_line rs then view_line_amount r else 0)"
        if "r \<in> set rs" for r
        using that rs by (simp add: in_return_slip_def list_ex_filter_key)
      then have m: "map ?h rs
          = map (\<lambda>r. if list_ex is_return_line rs then view_line_amount r else 0) rs"
        by (intro map_cong) simp_all
      show ?thesis
      proof (cases "list_ex is_return_line rs")
        case True
        then show ?thesis by (simp add: m)
      next
        case False
        then show ?thesis by (simp add: m)
      qed
    qed
    then show ?thesis using p rs by (simp add: slip_total_def)
  qed
  have "return_transactions_total data = sum_list (map slip_total ?g)"
    by (simp add: return_transactions_total_def foldl_slip_step)
  also have "map slip_total ?g
      = map (\<lambda>p. sum_list (map ?h (filter (\<lambda>r. aud_opref r = fst p) data))) ?g"
    by (intro map_cong) (simp_all add: slip)
  also have "sum_list \<dots>
      = sum_list (map (\<lambda>k. sum_list (map ?h (filter (\<lambda>r. aud_opref r = k) data)))
          (map fst ?g))"
    by (simp add: comp_def)
  also have "\<dots> = sum_list (map ?h data)"
    by (rule sum_list_by_key [OF dist keys])
  also have "\<dots> = sum_list (map view_line_amount (filter (in_return_slip data) data))"
    by (rule sum_list_filter_if)
  finally show ?thesis .
qed

lemma view_line_amount_nonneg: "0 \<le> view_line_amount r"
  by (auto simp: view_line_amount_def Let_def dest: float_of_decimal_nonneg
      split: option.splits)

lemma return_transactions_total_nonneg: "0 \<le> return_transactions_total data"
proof -
  have "0 \<le> sum_list (map view_line_amount rs)" for rs
    by (induction rs) (simp_all add: view_line_amount_nonneg)
  then show ?thesis by (simp add: return_transactions_total_flat)
qed

subsection \<open>The figures published\<close>

lemma py_round2_error: "\<bar>py_round2 x - x\<bar> \<le> 1 / 200"
proof -
  define y where "y = x * 100"
  define f where "f = \<lfloor>y\<rfloor>"
  define d where "d = y - of_int f"
  have lo: "0 \<le> d" and hi: "d < 1"
    unfolding d_def f_def by linarith+
  define n where "n = (if d < 1 / 2 then f else if d > 1 / 2 then f + 1
                       else if even f then f else f + 1)"
  have r: "py_round2 x = of_int n / 100"
    by (simp add: py_round2_def Let_def n_def d_def f_def y_def)
  have "n = f \<and> d \<le> 1 / 2 \<or> n = f + 1 \<and> d \<ge> 1 / 2"
    unfolding n_def by auto
  then have "\<bar>of_int n - y\<bar> \<le> 1 / 2"
    using lo hi unfolding d_def by auto
  then have "\<bar>of_int n / 100 - y / 100\<bar> \<le> 1 / 200"
    by (simp add: abs_le_iff field_simps)
  then show ?thesis by (simp add: r y_def)
qed

lemma round_sum_close:
  "\<bar>py_round2 (a + b) - (py_round2 a + py_round2 b)\<bar> \<le> 3 / 200"
  using py_round2_error [of "a + b"] py_round2_error [of a] py_round2_error [of b]
  by linarith

lemma round_diff_close:
  "\<bar>py_round2 (a - b) - (py_round2 a - py_round2 b)\<bar> \<le> 3 / 200"
  using py_round2_error [of "a - b"] py_round2_error [of a] py_round2_error [of b]
  by linarith

lemma pos_total_from_returns: "\<exists>v. pos_total_from rows s = Inr v"
proof (induction rows arbitrary: s)
  case Nil
  show ?case by simp
next
  case (Cons row rows)
  let ?d = "str_or_empty (pos_details row)"
  show ?case
  proof (cases "py_in ''VOID'' (py_upper ?d) \<or> findall_numbers ?d = []")
    case True
    then show ?thesis using Cons.IH by (auto simp: Let_def)
  next
    case False
    then have ne: "findall_numbers ?d \<noteq> []" by simp
    from last_number_converts [OF ne] False show ?thesis
      using Cons.IH by (simp add: Let_def)
  qed
qed

lemma pos1_total_from_returns:
  "(\<exists>v. pos1_total_from rows s = Inr v) \<longleftrightarrow> (\<forall>row\<in>set rows. total row \<noteq> None)"
  by (induction rows arbitrary: s) (auto split: option.splits)

lemma refresh_dashboard_returns_iff:
  "(\<exists>d. refresh_dashboard env eod_data pos2_data pos3_data posaud_data = Inr d)
   \<longleftrightarrow> (\<forall>row\<in>set eod_data. total row \<noteq> None)"
proof -
  obtain v2 where v2: "pos_total_from pos2_data 0 = Inr v2"
    using pos_total_from_returns by blast
  obtain v3 where v3: "pos_total_from pos3_data 0 = Inr v3"
    using pos_total_from_returns by blast
  show ?thesis
    using pos1_total_from_returns [of eod_data 0]
    by (auto simp: refresh_dashboard_def Let_def v2 v3 split: sum.splits)
qed

lemma refresh_dashboard_figures:
  assumes "refresh_dashboard env eod_data pos2_data pos3_data posaud_data = Inr d"
  shows "dash_total_transactions d
           = transactions (refresh_totals_of env eod_data pos2_data pos3_data posaud_data)"
    and "dash_fuel_total d
           = py_round2 (fuel (refresh_totals_of env eod_data pos2_data pos3_data posaud_data))"
    and "dash_nonfuel_total d
           = py_round2 (nonfuel (refresh_totals_of env eod_data pos2_data pos3_data posaud_data))"
    and "dash_total_revenue d
           = py_round2 (revenue (refresh_totals_of env eod_data pos2_data pos3_data posaud_data))"
    and "dash_total_returns d
           = py_round2 (returns (refresh_totals_of env eod_data pos2_data pos3_data posaud_data))"
    and "nett_revenue d
           = py_round2 (revenue (refresh_totals_of env eod_data pos2_data pos3_data posaud_data)
                        - returns (refresh_totals_of env eod_data pos2_data pos3_data posaud_data))"
  using assms
  by (auto simp: refresh_dashboard_def dashboard_of_def Let_def split: sum.splits)

lemma refresh_dashboard_cache_stores:
  assumes "refresh_dashboard_cache env eod_data pos2_data pos3_data posaud_data cache
             = Inr (cache', ok)"
  shows "\<exists>d. refresh_dashboard env eod_data pos2_data pos3_data posaud_data = Inr d
             \<and> map_of cache' ''dashboard_cache'' = Some (d, 300) \<and> ok"
  using assms
  by (auto simp: refresh_dashboard_cache_def AList.update_conv' split: sum.splits)

subsection \<open>The claims on the aggregators\<close>

lemma example_slip_keys: "slip_key ` set example_items = {Some 7, Some 3}"
  by (simp add: example_items_def slip_key_def)

lemmas refresh_eval =
  refresh_dashboard_def dashboard_of_def refresh_totals_of_def refresh_init_def
  example_refresh_env_def eod_row_step_def eod_row_body_def pos_row_step_def
  pos_row_body_def return_row_step_def return_row_body_def add_periods_def week_start_def
  week_end_def month_start_def month_end_def next_month_def weekday_def Let_def
  py_strip_def py_upper_def py_lower_def str_or_empty_def is_space_def is_digit_def
  dict_get_def TAGID_ATTENDANT_MAP_def search_number_def float_of_decimal_def
  digits_value_def digit_value_def py_round2_def

lemma two_rows_dashboard:
  "refresh_dashboard example_refresh_env [] [example_pos_row, example_pos_row] [] [] =
     Inr \<lparr>today_sale = 30, week_sale = 30, month_sale = 30,
          dash_fuel_total = 0, dash_diesel_total = 0, dash_unleaded_total = 0,
          dash_nonfuel_total = 30, dash_total_revenue = 30, nett_revenue = 30,
          dash_total_returns = 0, dash_total_transactions = 2,
          staff_performance = [],
          revenue_trend_labels = [''2025-02-15''], revenue_trend_data = [30],
          pos1_total_paid = 0, pos2_total_paid = 30, pos3_total_paid = 0,
          dash_week_start = 739292, dash_week_end = 739298,
          dash_month_start = 739283, dash_month_end = 739310,
          dash_today = 739297\<rparr>"
  by (simp add: refresh_eval example_pos_row_def)

lemma fine_dashboard:
  "refresh_dashboard example_refresh_env [fine_eod_row] [fine_pos_row] [] [] =
     Inr \<lparr>today_sale = 115.01, week_sale = 115.01, month_sale = 115.01,
          dash_fuel_total = 100, dash_diesel_total = 0, dash_unleaded_total = 100,
          dash_nonfuel_total = 15, dash_total_revenue = 115.01, nett_revenue = 115.01,
          dash_total_returns = 0, dash_total_transactions = 2,
          staff_performance = [(''Unknown'', 100.004, 1)],
          revenue_trend_labels = [''2025-02-15''], revenue_trend_data = [115.008],
          pos1_total_paid = 100, pos2_total_paid = 15, pos3_total_paid = 0,
          dash_week_start = 739292, dash_week_end = 739298,
          dash_month_start = 739283, dash_month_end = 739310,
          dash_today = 739297\<rparr>"
  by (simp add: refresh_eval fine_eod_row_def fine_pos_row_def)

lemma refund_dashboard:
  "refresh_dashboard example_refresh_env [fine_eod_row] [] [] [small_refund_row] =
     Inr \<lparr>today_sale = 100, week_sale = 100, month_sale = 100,
          dash_fuel_total = 100, dash_diesel_total = 0, dash_unleaded_total = 100,
          dash_nonfuel_total = 0, dash_total_revenue = 100, nett_revenue = 100,
          dash_total_returns = 0.01, dash_total_transactions = 1,
          staff_performance = [(''Unknown'', 100.004, 1)],
          revenue_trend_labels = [''2025-02-15''], revenue_trend_data = [100.004],
          pos1_total_paid = 100, pos2_total_paid = 0, pos3_total_paid = 0,
          dash_week_start = 739292, dash_week_end = 739298,
          dash_month_start = 739283, dash_month_end = 739310,
          dash_today = 739297\<rparr>"
  by (simp add: refresh_eval fine_eod_row_def small_refund_row_def)

lemma refresh_dashboard_raises:
  assumes "\<exists>row\<in>set eod_data. total row = None"
  shows "refresh_dashboard env eod_data pos2_data pos3_data posaud_data = Inl TypeError"
proof -
  have "pos1_total_from rows s = Inl TypeError" if "\<exists>row\<in>set rows. total row = None"
    for rows s
    using that by (induction rows arbitrary: s) (auto split: option.splits)
  from this [OF assms] show ?thesis by (simp add: refresh_dashboard_def)
qed

text \<open>
  Claim C3, as amended. In \<open>admin_dashboard\<close> the transaction count is the number of
  distinct slip keys of the rows (the slip id, or the row id when the slip id is null or
  0), whatever the number of rows. \<open>refresh_dashboard_cache\<close> raises a TypeError and
  caches nothing when an EOD row has a null total; otherwise it caches a dashboard
  whose transaction count is a count of rows, not of slips: the EOD rows whose \<open>s_date\<close>
  is a string that \<open>strptime\<close> parses (and whose total is not null), plus the POS2 and
  POS3 rows whose \<open>trandate\<close> is a non-empty string that \<open>strptime\<close> parses and
  whose detail line, stripped and upper-cased, does not hold VOID.
\<close>

theorem transaction_count_per_aggregator:
  "total_transactions (admin_dashboard_totals all_data st) = card (slip_key ` set all_data)
   \<and> ((\<exists>row\<in>set eod_data. total row = None) \<longrightarrow>
        refresh_dashboard_cache env eod_data pos2_data pos3_data posaud_data cache
          = Inl TypeError)
   \<and> ((\<forall>row\<in>set eod_data. total row \<noteq> None) \<longrightarrow>
        (\<exists>d. refresh_dashboard_cache env eod_data pos2_data pos3_data posaud_data cache
                = Inr (AList.update ''dashboard_cache'' (d, 300) cache, True)
             \<and> dash_total_transactions d
                = length (filter (eod_row_counts env) eod_data)
                  + length (filter (pos_row_counts env) (pos2_data @ pos3_data))))"
proof (intro conjI impI)
  show "total_transactions (admin_dashboard_totals all_data st) = card (slip_key ` set all_data)"
    by (rule admin_transactions)
next
  assume "\<exists>row\<in>set eod_data. total row = None"
  then have "refresh_dashboard env eod_data pos2_data pos3_data posaud_data = Inl TypeError"
    by (rule refresh_dashboard_raises)
  then show "refresh_dashboard_cache env eod_data pos2_data pos3_data posaud_data cache
      = Inl TypeError"
    by (simp add: refresh_dashboard_cache_def)
next
  assume "\<forall>row\<in>set eod_data. total row \<noteq> None"
  then obtain d where d: "refresh_dashboard env eod_data pos2_data pos3_data posaud_data = Inr d"
    using refresh_dashboard_returns_iff [of env eod_data pos2_data pos3_data posaud_data]
    by blast
  have "dash_total_transactions d
      = length (filter (eod_row_counts env) eod_data)
        + length (filter (pos_row_counts env) (pos2_data @ pos3_data))"
    using refresh_dashboard_figures(1) [OF d] by (simp only: refresh_transactions)
  with d show "\<exists>d. refresh_dashboard_cache env eod_data pos2_data pos3_data posaud_data cache
                = Inr (AList.update ''dashboard_cache'' (d, 300) cache, True)
             \<and> dash_total_transactions d
                = length (filter (eod_row_counts env) eod_data)
                  + length (filter (pos_row_counts env) (pos2_data @ pos3_data))"
    by (auto simp: refresh_dashboard_cache_def)
qed

theorem transaction_count_per_aggregator_witness:
  "length example_items = 3
   \<and> total_transactions (admin_dashboard_totals example_items stale_acc) = 2
   \<and> refresh_dashboard_cache example_refresh_env
        [example_eod_row, odd_grade_row\<lparr>total := None\<rparr>] [example_pos_row] [] [] []
      = Inl TypeError
   \<and> (\<exists>d. refresh_dashboard_cache example_refresh_env [example_eod_row, odd_grade_row]
              [example_pos_row] [example_pos_row, \<lparr>pos_trandate = Some ''15/02/2025'',
                  pos_details = Some ''MILK 20.00''\<rparr>] [] []
            = Inr ([(''dashboard_cache'', (d, 300))], True)
          \<and> dash_total_transactions d = 4)"
proof -
  have c: "card {Some (7::int), Some 3} = 2" by simp
  have l: "length example_items = 3" by (simp add: example_items_def)
  have e: "eod_row_counts example_refresh_env example_eod_row"
    "eod_row_counts example_refresh_env odd_grade_row"
    by (simp_all add: eod_row_counts_def example_refresh_env_def example_eod_row_def
        odd_grade_row_def)
  have p: "pos_row_counts example_refresh_env example_pos_row"
    "\<not> pos_row_counts example_refresh_env
         \<lparr>pos_trandate = Some ''15/02/2025'', pos_details = Some ''MILK 20.00''\<rparr>"
    by (simp_all add: pos_row_counts_def date_parses_def example_refresh_env_def
        example_pos_row_def py_strip_def py_upper_def str_or_empty_def is_space_def)
  have n: "\<exists>row\<in>set [example_eod_row, odd_grade_row\<lparr>total := None\<rparr>]. total row = None"
    by simp
  have a: "\<forall>row\<in>set [example_eod_row, odd_grade_row]. total row \<noteq> None"
    by (simp add: example_eod_row_def odd_grade_row_def)
  have first: "total_transactions (admin_dashboard_totals example_items stale_acc) = 2"
    using transaction_count_per_aggregator [of example_items stale_acc "[]"]
    by (simp add: example_slip_keys c)
  have second: "refresh_dashboard_cache example_refresh_env
        [example_eod_row, odd_grade_row\<lparr>total := None\<rparr>] [example_pos_row] [] [] []
      = Inl TypeError"
    using transaction_count_per_aggregator [of "[]" stale_acc
        "[example_eod_row, odd_grade_row\<lparr>total := None\<rparr>]" example_refresh_env
        "[example_pos_row]" "[]" "[]" "[]"] n
    by blast
  have third: "\<exists>d. refresh_dashboard_cache example_refresh_env [example_eod_row, odd_grade_row]
              [example_pos_row] [example_pos_row, \<lparr>pos_trandate = Some ''15/02/2025'',
                  pos_details = Some ''MILK 20.00''\<rparr>] [] []
            = Inr ([(''dashboard_cache'', (d, 300))], True)
          \<and> dash_total_transactions d = 4"
    using transaction_count_per_aggregator [of "[]" stale_acc
        "[example_eod_row, odd_grade_row]" example_refresh_env
        "[example_pos_row]" "[example_pos_row, \<lparr>pos_trandate = Some ''15/02/2025'',
                  pos_details = Some ''MILK 20.00''\<rparr>]" "[]" "[]"] a
    by (simp add: e p eval_nat_numeral)
  from l first second third show ?thesis by blast
qed

text \<open>
  The claim as stated fails on \<open>refresh_dashboard_cache\<close>: two line items that are
  the same row, and so of one slip, count as two transactions, in the totals and in the
  dashboard the function caches.
\<close>

theorem refresh_transactions_counterexample:
  "transactions
     (refresh_totals_of example_refresh_env [] [example_pos_row, example_pos_row] [] []) = 2
   \<and> card (set [example_pos_row, example_pos_row]) = 1
   \<and> \<not> isl (refresh_dashboard example_refresh_env [] [example_pos_row, example_pos_row] [] [])
   \<and> dash_total_transactions
        (projr (refresh_dashboard example_refresh_env [] [example_pos_row, example_pos_row]
                  [] [])) = 2"
proof -
  have "transactions
     (refresh_totals_of example_refresh_env [] [example_pos_row, example_pos_row] [] []) = 2"
    by (simp add: refresh_transactions pos_row_counts_def date_parses_def
        example_refresh_env_def example_pos_row_def py_strip_def py_upper_def
        str_or_empty_def is_space_def)
  then show ?thesis by (simp add: two_rows_dashboard)
qed

text \<open>
  Claim C4, as amended. In \<open>admin_dashboard\<close> the total revenue is the fuel total plus
  the non-fuel total: a row is fuel when its item name holds DIESEL or UNLEADED (in any
  case of letters) and non-fuel otherwise, and every amount goes to exactly one of the
  two. In \<open>refresh_dashboard_cache\<close> every row of the fuel log (EOD) that counts is
  fuel, whatever its grade code, and every POS2/POS3 row that counts is non-fuel; the
  totals it accumulates satisfy revenue = fuel + non-fuel, but the dashboard shows
  each of the three rounded to two decimals, so the total revenue shown is the rounded
  sum and lies within 0.015 of the fuel total plus the non-fuel total shown, without
  being equal to it in general.
\<close>

theorem revenue_is_fuel_plus_nonfuel:
  "total_revenue (admin_dashboard_totals all_data st)
     = fuel_total (admin_dashboard_totals all_data st)
       + nonfuel_total (admin_dashboard_totals all_data st)
   \<and> fuel_total (admin_dashboard_totals all_data st)
     = sum_list (map item_amount (filter item_is_fuel all_data))
   \<and> nonfuel_total (admin_dashboard_totals all_data st)
     = sum_list (map item_amount (filter (\<lambda>i. \<not> item_is_fuel i) all_data))
   \<and> total_revenue (admin_dashboard_totals all_data st)
     = sum_list (map item_amount all_data)
   \<and> revenue (refresh_totals_of env eod_data pos2_data pos3_data posaud_data)
     = fuel (refresh_totals_of env eod_data pos2_data pos3_data posaud_data)
       + nonfuel (refresh_totals_of env eod_data pos2_data pos3_data posaud_data)
   \<and> fuel (refresh_totals_of env eod_data pos2_data pos3_data posaud_data)
     = sum_list (map eod_amount (filter (eod_row_counts env) eod_data))
   \<and> nonfuel (refresh_totals_of env eod_data pos2_data pos3_data posaud_data)
     = sum_list (map pos_amount (filter (pos_row_counts env) (pos2_data @ pos3_data)))
   \<and> (\<forall>d. refresh_dashboard env eod_data pos2_data pos3_data posaud_data = Inr d \<longrightarrow>
         dash_fuel_total d
           = py_round2 (sum_list (map eod_amount (filter (eod_row_counts env) eod_data)))
       \<and> dash_nonfuel_total d
           = py_round2 (sum_list (map pos_amount
                          (filter (pos_row_counts env) (pos2_data @ pos3_data))))
       \<and> dash_total_revenue d
           = py_round2 (sum_list (map eod_amount (filter (eod_row_counts env) eod_data))
                        + sum_list (map pos_amount
                            (filter (pos_row_counts env) (pos2_data @ pos3_data))))
       \<and> \<bar>dash_total_revenue d - (dash_fuel_total d + dash_nonfuel_total d)\<bar> \<le> 3 / 200)"
proof -
  let ?t = "refresh_totals_of env eod_data pos2_data pos3_data posaud_data"
  let ?f = "sum_list (map eod_amount (filter (eod_row_counts env) eod_data))"
  let ?n = "sum_list (map pos_amount (filter (pos_row_counts env) (pos2_data @ pos3_data)))"
  have f: "fuel ?t = ?f" by (rule refresh_fuel)
  have n: "nonfuel ?t = ?n" by (rule refresh_nonfuel)
  have r: "revenue ?t = fuel ?t + nonfuel ?t" by (rule refresh_balance)
  have shown: "dash_fuel_total d = py_round2 ?f \<and> dash_nonfuel_total d = py_round2 ?n
       \<and> dash_total_revenue d = py_round2 (?f + ?n)
       \<and> \<bar>dash_total_revenue d - (dash_fuel_total d + dash_nonfuel_total d)\<bar> \<le> 3 / 200"
    if d: "refresh_dashboard env eod_data pos2_data pos3_data posaud_data = Inr d" for d
  proof -
    have 1: "dash_fuel_total d = py_round2 ?f"
      using refresh_dashboard_figures(2) [OF d] by (simp only: f)
    have 2: "dash_nonfuel_total d = py_round2 ?n"
      using refresh_dashboard_figures(3) [OF d] by (simp only: n)
    have 3: "dash_total_revenue d = py_round2 (?f + ?n)"
      using refresh_dashboard_figures(4) [OF d] r by (simp only: f n)
    from 1 2 3 round_sum_close [of ?f ?n] show ?thesis by simp
  qed
  from admin_split [of all_data st] r f n shown show ?thesis by blast
qed

theorem revenue_is_fuel_plus_nonfuel_witness:
  "total_revenue (admin_dashboard_totals example_items stale_acc) = 250.5
   \<and> fuel_total (admin_dashboard_totals example_items stale_acc) = 228
   \<and> nonfuel_total (admin_dashboard_totals example_items stale_acc) = 22.5
   \<and> (\<exists>d. refresh_dashboard example_refresh_env [fine_eod_row] [fine_pos_row] [] [] = Inr d
          \<and> dash_fuel_total d = 100 \<and> dash_nonfuel_total d = 15
          \<and> dash_total_revenue d = 115.01)"
proof -
  have f: "sum_list (map item_amount (filter item_is_fuel example_items)) = 228"
    by (simp add: example_items_def item_is_fuel_def item_upper_name_def py_upper_def
        str_or_empty_def item_amount_def num_or_0_def)
  have n: "sum_list (map item_amount (filter (\<lambda>i. \<not> item_is_fuel i) example_items)) = 22.5"
    by (simp add: example_items_def item_is_fuel_def item_upper_name_def py_upper_def
        str_or_empty_def item_amount_def num_or_0_def)
  have e: "sum_list (map eod_amount (filter (eod_row_counts example_refresh_env) [fine_eod_row]))
      = 100.004"
    by (simp add: eod_row_counts_def example_refresh_env_def fine_eod_row_def eod_amount_def
        num_or_0_def)
  have p: "sum_list (map pos_amount
        (filter (pos_row_counts example_refresh_env) ([fine_pos_row] @ []))) = 15.004"
    by (simp add: pos_row_counts_def date_parses_def example_refresh_env_def fine_pos_row_def
        pos_amount_def pos_amount_of_def py_strip_def py_upper_def str_or_empty_def
        is_space_def is_digit_def float_of_decimal_def digits_value_def digit_value_def)
  have r: "py_round2 100.004 = 100" "py_round2 15.004 = 15" "py_round2 (100.004 + 15.004) = 115.01"
    by (simp_all add: py_round2_def)
  obtain d where d: "refresh_dashboard example_refresh_env [fine_eod_row] [fine_pos_row] [] []
      = Inr d"
    using fine_dashboard by blast
  have admin: "total_revenue (admin_dashboard_totals example_items stale_acc) = 250.5
      \<and> fuel_total (admin_dashboard_totals example_items stale_acc) = 228
      \<and> nonfuel_total (admin_dashboard_totals example_items stale_acc) = 22.5"
    using revenue_is_fuel_plus_nonfuel [of example_items stale_acc]
    by (simp add: f n)
  have "dash_fuel_total d = 100 \<and> dash_nonfuel_total d = 15 \<and> dash_total_revenue d = 115.01"
    using revenue_is_fuel_plus_nonfuel [of "[]" stale_acc example_refresh_env
        "[fine_eod_row]" "[fine_pos_row]" "[]" "[]"] d
    by (simp only: e p r)
  with admin d show ?thesis by blast
qed

text \<open>
  The claim as stated fails on \<open>refresh_dashboard_cache\<close>. A row of the fuel log
  whose grade code is 03, neither unleaded nor diesel, goes to the fuel total and not
  to the non-fuel total. And for a fuel sale of 100.004 and a shop line of 15.004 the
  dashboard shows a total revenue of 115.01, a fuel total of 100 and a non-fuel total
  of 15.
\<close>

theorem refresh_fuel_counterexample:
  "gradeid odd_grade_row = Some ''03''
   \<and> fuel (refresh_totals_of example_refresh_env [odd_grade_row] [] [] []) = 100
   \<and> nonfuel (refresh_totals_of example_refresh_env [odd_grade_row] [] [] []) = 0
   \<and> unleaded (refresh_totals_of example_refresh_env [odd_grade_row] [] [] []) = 0
   \<and> diesel (refresh_totals_of example_refresh_env [odd_grade_row] [] [] []) = 0
   \<and> \<not> isl (refresh_dashboard example_refresh_env [fine_eod_row] [fine_pos_row] [] [])
   \<and> dash_total_revenue
        (projr (refresh_dashboard example_refresh_env [fine_eod_row] [fine_pos_row] [] []))
      = 115.01
   \<and> dash_fuel_total
        (projr (refresh_dashboard example_refresh_env [fine_eod_row] [fine_pos_row] [] []))
      = 100
   \<and> dash_nonfuel_total
        (projr (refresh_dashboard example_refresh_env [fine_eod_row] [fine_pos_row] [] []))
      = 15"
  by (simp add: odd_grade_totals fine_dashboard) (simp add: odd_grade_row_def)

text \<open>
  Claim C5 fails on the code: a quantity line whose price is not a number (here a unit
  price ending in a full stop) makes \<open>float\<close> raise a ValueError that nothing catches,
  whatever \<open>float\<close> makes of other strings.
\<close>

theorem normalize_item_rows_raises:
  "normalize_item_rows str_to_float [example_bad_line] = Inl ValueError"
  by (simp add: normalize_item_rows_def example_bad_line_def py_strip_def str_or_empty_def
      qty_price_match_def qty_price_numbers_def float_of_decimal_def is_digit_def
      is_space_def is_num_char_def digits_value_def digit_value_def Let_def)

text \<open>
  Claim C6, as amended. In \<open>refresh_dashboard_cache\<close> the returns total is the sum,
  over the audit rows, of the first number of each detail line that holds \<open>return\<close>
  or \<open>refund\<close> (nothing for a line with no number), and it is not negative; the
  dashboard shows the net revenue as the revenue minus the returns, rounded to two
  decimals, next to the revenue and the returns each rounded by itself, so the net
  revenue shown lies within 0.015 of the revenue shown minus the returns shown without
  being equal to it in general. In \<open>return_transactions_view\<close> the returns total is
  the sum, over the rows of the slips that have a line holding \<open>return\<close> or
  \<open>refund\<close>, of the number that follows the word \<open>amount\<close> on a line that holds
  \<open>return\<close> or \<open>refund\<close> once rid of its blanks (nothing for a line without such a
  number); it is not negative, the view shows it rounded to two decimals and computes
  no net revenue.
\<close>

theorem returns_total_per_view:
  "returns (refresh_totals_of env eod_data pos2_data pos3_data posaud_data)
     = sum_list (map return_amount posaud_data)
   \<and> 0 \<le> returns (refresh_totals_of env eod_data pos2_data pos3_data posaud_data)
   \<and> (\<forall>d. refresh_dashboard env eod_data pos2_data pos3_data posaud_data = Inr d \<longrightarrow>
         dash_total_returns d = py_round2 (sum_list (map return_amount posaud_data))
       \<and> dash_total_revenue d
           = py_round2 (revenue (refresh_totals_of env eod_data pos2_data pos3_data posaud_data))
       \<and> nett_revenue d
           = py_round2 (revenue (refresh_totals_of env eod_data pos2_data pos3_data posaud_data)
                        - sum_list (map return_amount posaud_data))
       \<and> \<bar>nett_revenue d - (dash_total_revenue d - dash_total_returns d)\<bar> \<le> 3 / 200)
   \<and> return_transactions_total data
     = sum_list (map view_line_amount (filter (in_return_slip data) data))
   \<and> 0 \<le> return_transactions_total data
   \<and> return_transactions_view parse to_date data
     = py_round2 (sum_list (map view_line_amount
         (filter (in_return_slip (filter_to_date parse to_date data))
            (filter_to_date parse to_date data))))"
proof -
  let ?t = "refresh_totals_of env eod_data pos2_data pos3_data posaud_data"
  let ?s = "sum_list (map return_amount posaud_data)"
  have sum: "returns ?t = ?s" by (rule refresh_returns)
  have nonneg: "0 \<le> returns ?t"
    unfolding sum by (rule sum_list_return_amount_nonneg)
  have shown: "dash_total_returns d = py_round2 ?s
       \<and> dash_total_revenue d = py_round2 (revenue ?t)
       \<and> nett_revenue d = py_round2 (revenue ?t - ?s)
       \<and> \<bar>nett_revenue d - (dash_total_revenue d - dash_total_returns d)\<bar> \<le> 3 / 200"
    if d: "refresh_dashboard env eod_data pos2_data pos3_data posaud_data = Inr d" for d
  proof -
    have 1: "dash_total_returns d = py_round2 ?s"
      using refresh_dashboard_figures(5) [OF d] by (simp only: sum)
    have 2: "dash_total_revenue d = py_round2 (revenue ?t)"
      by (rule refresh_dashboard_figures(4) [OF d])
    have 3: "nett_revenue d = py_round2 (revenue ?t - ?s)"
      using refresh_dashboard_figures(6) [OF d] by (simp only: sum)
    from 1 2 3 round_diff_close [of "revenue ?t" ?s] show ?thesis by simp
  qed
  have flat: "return_transactions_total data
      = sum_list (map view_line_amount (filter (in_return_slip data) data))"
    by (rule return_transactions_total_flat)
  have vnonneg: "0 \<le> return_transactions_total data"
    by (rule return_transactions_total_nonneg)
  have view: "return_transactions_view parse to_date data
     = py_round2 (sum_list (map view_line_amount
         (filter (in_return_slip (filter_to_date parse to_date data))
            (filter_to_date parse to_date data))))"
    by (simp add: return_transactions_view_def return_transactions_total_flat)
  from sum nonneg shown flat vnonneg view show ?thesis by blast
qed

theorem returns_total_per_view_witness:
  "map return_amount example_posaud_rows = [12.5, 0, 0, 0]
   \<and> (\<exists>d. refresh_dashboard example_refresh_env [fine_eod_row] [] [] [small_refund_row] = Inr d
          \<and> dash_total_returns d = 0.01 \<and> nett_revenue d = 100)
   \<and> return_transactions_total
        [\<lparr>aud_opref = Some ''S1'', aud_trandate = None,
          aud_details = Some ''Refund amount: 12.50''\<rparr>,
         \<lparr>aud_opref = Some ''S2'', aud_trandate = None,
          aud_details = Some ''re turn amount 3''\<rparr>,
         \<lparr>aud_opref = Some ''S1'', aud_trandate = None,
          aud_details = Some ''re fund AMOUNT 4.5''\<rparr>] = 17"
proof -
  have m: "map return_amount example_posaud_rows = [12.5, 0, 0, 0]"
    by (simp add: example_posaud_rows_def return_amount_def is_return_line_def
        py_lower_def str_or_empty_def search_number_def is_digit_def float_of_decimal_def
        digits_value_def digit_value_def)
  have s: "sum_list (map return_amount [small_refund_row]) = 0.006"
    by (simp add: small_refund_row_def return_amount_def is_return_line_def
        py_lower_def str_or_empty_def search_number_def is_digit_def float_of_decimal_def
        digits_value_def digit_value_def)
  have rev: "revenue (refresh_totals_of example_refresh_env [fine_eod_row] [] []
      [small_refund_row]) = 100.004"
    by (simp add: refresh_eval fine_eod_row_def small_refund_row_def)
  have r: "py_round2 0.006 = 0.01" "py_round2 (100.004 - 0.006) = 100"
    by (simp_all add: py_round2_def)
  obtain d where d: "refresh_dashboard example_refresh_env [fine_eod_row] [] []
      [small_refund_row] = Inr d"
    using refund_dashboard by blast
  have shown: "dash_total_returns d = 0.01 \<and> nett_revenue d = 100"
    using returns_total_per_view [of example_refresh_env "[fine_eod_row]" "[]" "[]"
        "[small_refund_row]" "[]"] d
    by (simp only: s rev r)
  have v: "return_transactions_total
        [\<lparr>aud_opref = Some ''S1'', aud_trandate = None,
          aud_details = Some ''Refund amount: 12.50''\<rparr>,
         \<lparr>aud_opref = Some ''S2'', aud_trandate = None,
          aud_details = Some ''re turn amount 3''\<rparr>,
         \<lparr>aud_opref = Some ''S1'', aud_trandate = None,
          aud_details = Some ''re fund AMOUNT 4.5''\<rparr>] = 17"
    by (simp add: returns_total_per_view in_return_slip_def is_return_line_def
        view_line_amount_def remove_spaces_def py_lower_def str_or_empty_def
        amount_tail_def is_space_def is_digit_def float_of_decimal_def digits_value_def
        digit_value_def Let_def)
  from m d shown v show ?thesis by blast
qed

text \<open>
  The claim as stated fails on both functions. For the line \<open>REFUND 12.50 BREAD\<close>,
  whose first number is 12.50, \<open>return_transactions_view\<close> adds nothing, since the
  line has no \<open>amount\<close>. And for a revenue of 100.004 and a refund of 0.006 the cached
  dashboard shows a net revenue of 100, a revenue of 100 and returns of 0.01.
\<close>

theorem returns_counterexample:
  "return_amount refund_bread_row = 12.5
   \<and> return_transactions_total [refund_bread_row] = 0
   \<and> return_transactions_view (\<lambda>s. None) None [refund_bread_row] = 0
   \<and> \<not> isl (refresh_dashboard example_refresh_env [fine_eod_row] [] [] [small_refund_row])
   \<and> nett_revenue
        (projr (refresh_dashboard example_refresh_env [fine_eod_row] [] [] [small_refund_row]))
      = 100
   \<and> dash_total_revenue
        (projr (refresh_dashboard example_refresh_env [fine_eod_row] [] [] [small_refund_row]))
      = 100
   \<and> dash_total_returns
        (projr (refresh_dashboard example_refresh_env [fine_eod_row] [] [] [small_refund_row]))
      = 0.01"
proof -
  have a: "return_amount refund_bread_row = 12.5"
    by (simp add: refund_bread_row_def return_amount_def is_return_line_def
        py_lower_def str_or_empty_def search_number_def is_digit_def float_of_decimal_def
        digits_value_def digit_value_def)
  have b: "return_transactions_total [refund_bread_row] = 0"
    by (simp add: return_transactions_total_def group_by_opref_def group_step_def
        dict_get_def slip_step_def is_return_line_def return_line_step_def
        refund_bread_row_def remove_spaces_def py_lower_def str_or_empty_def Let_def)
  have c: "return_transactions_view (\<lambda>s. None) None [refund_bread_row] = 0"
    by (simp add: return_transactions_view_def filter_to_date_def b py_round2_def)
  from a b c show ?thesis by (simp add: refund_dashboard)
qed

text \<open>
  Claim C10. In the aggregation of \<open>admin_dashboard\<close> the returns total is 0 for every
  list of rows, and whenever the view gets to its figures the returns total shown is 0
  and the net revenue is the total revenue.
\<close>

theorem admin_returns_zero:
  "total_returns (admin_dashboard_totals all_data st) = 0
   \<and> (\<forall>ctx. admin_dashboard env all_data st = Inr ctx \<longrightarrow>
         ctx_total_returns ctx = 0 \<and> ctx_nett_revenue ctx = ctx_total_revenue ctx)"
proof -
  have z: "total_returns (admin_dashboard_totals all_data st) = 0"
    by (simp add: admin_dashboard_totals_def aggregate_items_total_returns
        admin_dashboard_init_fields)
  show ?thesis using z
    by (auto simp: admin_dashboard_def admin_dashboard_context_def Let_def
        split: sum.splits)
qed

theorem admin_returns_zero_witness:
  "(\<exists>ctx. admin_dashboard example_env example_items stale_acc = Inr ctx
      \<and> ctx_total_returns ctx = 0 \<and> ctx_nett_revenue ctx = 250.5
      \<and> ctx_total_revenue ctx = 250.5)
   \<and> py_in ''REFUND'' (item_upper_name (example_items ! 1))"
proof -
  have e: "\<exists>ctx. admin_dashboard example_env example_items stale_acc = Inr ctx
      \<and> ctx_total_revenue ctx = 250.5"
    by (simp add: admin_dashboard_def example_totals admin_dashboard_context_def
        example_env_def weekday_def dict_get_def Let_def)
  then obtain ctx where c: "admin_dashboard example_env example_items stale_acc = Inr ctx"
    and r: "ctx_total_revenue ctx = 250.5" by blast
  have "ctx_total_returns ctx = 0 \<and> ctx_nett_revenue ctx = ctx_total_revenue ctx"
    using admin_returns_zero [of example_items stale_acc example_env] c by simp
  moreover have "py_in ''REFUND'' (item_upper_name (example_items ! 1))"
    by (simp add: example_items_def item_upper_name_def py_upper_def str_or_empty_def)
  ultimately show ?thesis using c r by simp
qed

end
